theory Spec2Isabelle
  imports Main "HOL-Library.Sublist"
begin

section \<open>JavaScript strings and values\<close>

text \<open>
  A JavaScript string is a sequence of UTF-16 code units; \<open>charCodeAt\<close> reads one of
  them (a number in 0..65535).  Strings are modelled as lists of code units.  An ASCII
  literal of the source is written \<open>lit ''...''\<close>; a character outside ASCII is
  given by its code units.
\<close>

type_synonym jsstring = "nat list"

definition lit :: "string \<Rightarrow> jsstring" where
  "lit s = map of_char s"

text \<open>
  JavaScript values, as far as the handlers meet them: what \<open>JSON.parse\<close> can return
  (numbers restricted to integers), \<open>undefined\<close>, \<open>NaN\<close> (from \<open>parseInt\<close>), and
  \<open>Builtin name\<close> for a member that a plain object inherits from \<open>Object.prototype\<close>
  (a function, or the prototype object itself for \<open>__proto__\<close>).  An object is the list
  of its own properties; a lookup takes the first pair with the key.
\<close>

datatype jsval =
    Undefined
  | Null
  | Bool bool
  | Num int
  | NaN
  | Str jsstring
  | Arr "jsval list"
  | Obj "(jsstring \<times> jsval) list"
  | Builtin jsstring

text \<open>\<open>ToBoolean\<close>: what \<open>if (v)\<close>, \<open>!v\<close>, \<open>v || d\<close> and \<open>v && w\<close> test.\<close>

fun truthy :: "jsval \<Rightarrow> bool" where
  "truthy Undefined = False"
| "truthy Null = False"
| "truthy (Bool b) = b"
| "truthy (Num n) = (n \<noteq> 0)"
| "truthy NaN = False"
| "truthy (Str s) = (s \<noteq> [])"
| "truthy (Arr xs) = True"
| "truthy (Obj kvs) = True"
| "truthy (Builtin name) = True"

text \<open>\<open>String.prototype.split\<close> with a one-character separator, as a scan from the
  left: \<open>item\<close> is the part read since the last separator.  The result is never empty:
  a string without the separator is the only item.\<close>

fun split_from :: "nat \<Rightarrow> jsstring \<Rightarrow> jsstring \<Rightarrow> jsstring list" where
  "split_from sep item [] = [item]"
| "split_from sep item (c # cs) =
     (if c = sep then item # split_from sep [] cs else split_from sep (item @ [c]) cs)"

definition split_on :: "nat \<Rightarrow> jsstring \<Rightarrow> jsstring list" where
  "split_on sep s = split_from sep [] s"

text \<open>\<open>String.prototype.trim\<close> removes white space and line terminators at both ends.\<close>

definition is_white_space :: "nat \<Rightarrow> bool" where
  "is_white_space c \<longleftrightarrow>
     c \<in> {9, 10, 11, 12, 13, 32, 160, 5760, 8232, 8233, 8239, 8287, 12288, 65279}
     \<or> (8192 \<le> c \<and> c \<le> 8202)"

definition trim :: "jsstring \<Rightarrow> jsstring" where
  "trim s = rev (dropWhile is_white_space (rev (dropWhile is_white_space s)))"

text \<open>
  \<open>parseInt(s)\<close> without a radix: leading white space is skipped, then an optional sign,
  then \<open>0x\<close>/\<open>0X\<close> selects base 16; the longest run of digits of the base is read, and
  no digit at all gives \<open>NaN\<close>.  The value is kept exact (JavaScript rounds beyond
  \<open>2^53\<close>; a value that is not zero stays not zero).
\<close>

definition digit_value :: "nat \<Rightarrow> nat option" where
  "digit_value c =
     (if 48 \<le> c \<and> c \<le> 57 then Some (c - 48)
      else if 97 \<le> c \<and> c \<le> 122 then Some (c - 97 + 10)
      else if 65 \<le> c \<and> c \<le> 90 then Some (c - 65 + 10)
      else None)"

definition is_digit_in :: "nat \<Rightarrow> nat \<Rightarrow> bool" where
  "is_digit_in radix c = (case digit_value c of None \<Rightarrow> False | Some d \<Rightarrow> d < radix)"

definition digits_value :: "nat \<Rightarrow> jsstring \<Rightarrow> int" where
  "digits_value radix ds =
     foldl (\<lambda>acc c. acc * int radix + int (case digit_value c of None \<Rightarrow> 0 | Some d \<Rightarrow> d)) 0 ds"

definition parse_digits :: "int \<Rightarrow> nat \<Rightarrow> jsstring \<Rightarrow> jsval" where
  "parse_digits sign radix s =
     (let ds = takeWhile (is_digit_in radix) s
      in if ds = [] then NaN else Num (sign * digits_value radix ds))"

fun parse_radix :: "int \<Rightarrow> jsstring \<Rightarrow> jsval" where
  "parse_radix sign (z # x # rest) =
     (if z = 48 \<and> (x = 120 \<or> x = 88) then parse_digits sign 16 rest
      else parse_digits sign 10 (z # x # rest))"
| "parse_radix sign s = parse_digits sign 10 s"

fun parse_sign :: "jsstring \<Rightarrow> jsval" where
  "parse_sign (c # rest) =
     (if c = 45 then parse_radix (- 1) rest
      else if c = 43 then parse_radix 1 rest
      else parse_radix 1 (c # rest))"
| "parse_sign [] = parse_radix 1 []"

definition parseInt :: "jsstring \<Rightarrow> jsval" where
  "parseInt s = parse_sign (dropWhile is_white_space s)"

section \<open>The client address (ip.js; part_000, clientIp; part_001, ip_adresse)\<close>

text \<open>
  What the handlers read of a request.  A header that is not sent is \<open>None\<close>;
  \<open>remoteAddress\<close> is \<open>req.connection?.remoteAddress\<close>, \<open>None\<close> when there is no
  connection object or it has no address.
\<close>

record request =
  req_method :: jsstring
  x_forwarded_for :: "jsstring option"
  x_real_ip :: "jsstring option"
  remoteAddress :: "jsstring option"
  body :: jsval

text \<open>\<open>a || d\<close> for a string or \<open>undefined\<close> on the left: the empty string is falsy.\<close>

fun or_else :: "jsstring option \<Rightarrow> jsstring \<Rightarrow> jsstring" where
  "or_else None d = d"
| "or_else (Some s) d = (if s \<noteq> [] then s else d)"

text \<open>\<^verbatim>\<open>req.headers['x-forwarded-for']?.split(',')[0]?.trim()\<close>\<close>

definition first_forwarded :: "request \<Rightarrow> jsstring option" where
  "first_forwarded req = map_option (\<lambda>s. trim (hd (split_on 44 s))) (x_forwarded_for req)"

text \<open>ip.js, lines 21-24.\<close>

definition ip_js_ip :: "request \<Rightarrow> jsstring" where
  "ip_js_ip req =
     or_else (first_forwarded req)
       (or_else (x_real_ip req) (or_else (remoteAddress req) (lit ''unknown'')))"

text \<open>part_000, lines 37-40.\<close>

definition clientIp :: "request \<Rightarrow> jsstring" where
  "clientIp req =
     or_else (first_forwarded req)
       (or_else (x_real_ip req) (or_else (remoteAddress req) (lit ''unknown'')))"

text \<open>part_001, lines 337-340:
  \<^verbatim>\<open>forwardedFor ? forwardedFor.split(',')[0].trim()
               : req.headers['x-real-ip'] || req.connection?.remoteAddress || 'Ukjent IP'\<close>\<close>

definition ip_adresse :: "request \<Rightarrow> jsstring" where
  "ip_adresse req =
     (case x_forwarded_for req of
        Some forwardedFor \<Rightarrow>
          if forwardedFor \<noteq> [] then trim (hd (split_on 44 forwardedFor))
          else or_else (x_real_ip req) (or_else (remoteAddress req) (lit ''Ukjent IP''))
      | None \<Rightarrow> or_else (x_real_ip req) (or_else (remoteAddress req) (lit ''Ukjent IP'')))"

text \<open>
  The derivation as the specification words it: the trimmed first comma-separated value
  of the forwarded-for header if present, otherwise the real-ip header, otherwise the
  connection's remote address, otherwise the sentinel.
\<close>

definition spec_client_address :: "jsstring \<Rightarrow> request \<Rightarrow> jsstring" where
  "spec_client_address sentinel req =
     (case x_forwarded_for req of
        Some forwarded \<Rightarrow> trim (hd (split_on 44 forwarded))
      | None \<Rightarrow>
          (case x_real_ip req of
             Some real_ip \<Rightarrow> real_ip
           | None \<Rightarrow> (case remoteAddress req of Some remote \<Rightarrow> remote | None \<Rightarrow> sentinel)))"

section \<open>Variant A: the hash of an address (part_000, hashIP)\<close>

text \<open>
  \<open>ToInt32\<close> of an integer-valued number: the value modulo \<open>2^32\<close>, read as two's
  complement.  It is what \<open>hash << 5\<close> and \<open>hash & hash\<close> apply to their operands.
\<close>

definition toInt32 :: "int \<Rightarrow> int" where
  "toInt32 x = (x + 2 ^ 31) mod 2 ^ 32 - 2 ^ 31"

text \<open>
  The loop body of \<open>hashIP\<close>:
  \<^verbatim>\<open>hash = ((hash << 5) - hash) + char;  hash = hash & hash;\<close>
  The shift wraps to 32 bits; the subtraction and the addition are exact (all operands are
  far below \<open>2^53\<close>); \<open>hash & hash\<close> wraps again.
\<close>

definition hashIP_step :: "int \<Rightarrow> nat \<Rightarrow> int" where
  "hashIP_step hash char = toInt32 ((toInt32 (hash * 2 ^ 5) - hash) + int char)"

fun hashIP_loop :: "int \<Rightarrow> jsstring \<Rightarrow> int" where
  "hashIP_loop hash [] = hash"
| "hashIP_loop hash (char # rest) = hashIP_loop (hashIP_step hash char) rest"

text \<open>\<^verbatim>\<open>let hash = 0; for (...) {...}; return Math.abs(hash);\<close>\<close>

definition hashIP :: "jsstring \<Rightarrow> int" where
  "hashIP ip = \<bar>hashIP_loop 0 ip\<bar>"

text \<open>\<^verbatim>\<open>const topicId = ((hashValue % 900000) + 100000);\<close>  (\<open>hashValue\<close> is not negative,
  so JavaScript's \<open>%\<close> is \<open>mod\<close>.)\<close>

definition hashTopicId :: "jsstring \<Rightarrow> int" where
  "hashTopicId ip = hashIP ip mod 900000 + 100000"

text \<open>
  The hash as the specification words it: \<open>hash = hash*31 + charCode\<close>, wrapped to the
  32-bit signed range, over the characters from left to right, starting from 0.
\<close>

definition wrap_signed32 :: "int \<Rightarrow> int" where
  "wrap_signed32 x = (if x mod 2 ^ 32 < 2 ^ 31 then x mod 2 ^ 32 else x mod 2 ^ 32 - 2 ^ 32)"

definition spec_rolling_hash :: "jsstring \<Rightarrow> int" where
  "spec_rolling_hash ip = foldl (\<lambda>hash c. wrap_signed32 (hash * 31 + int c)) 0 ip"


section \<open>Variant A: the override table and getTopicIdForIP (part_000, lines 44-85)\<close>

text \<open>The names every plain object inherits from \<open>Object.prototype\<close>.\<close>

definition Object_prototype_names :: "jsstring list" where
  "Object_prototype_names =
     [lit ''constructor'', lit ''__defineGetter__'', lit ''__defineSetter__'',
      lit ''hasOwnProperty'', lit ''__lookupGetter__'', lit ''__lookupSetter__'',
      lit ''isPrototypeOf'', lit ''propertyIsEnumerable'', lit ''toString'',
      lit ''valueOf'', lit ''__proto__'', lit ''toLocaleString'']"

text \<open>
  The callback of \<open>forEach\<close>, first half:
  \<^verbatim>\<open>const [ipAddr, topicId] = mapping.split(':').map(s => s.trim());
  if (ipAddr && topicId) ...\<close>
  The entry that the item contributes, if any: the address and \<open>parseInt(topicId)\<close>.
\<close>

definition mapping_entry :: "jsstring \<Rightarrow> (jsstring \<times> jsval) option" where
  "mapping_entry mapping =
     (case map trim (split_on 58 mapping) of
        ipAddr # topicId # rest \<Rightarrow>
          if ipAddr \<noteq> [] \<and> topicId \<noteq> [] then Some (ipAddr, parseInt topicId) else None
      | _ \<Rightarrow> None)"

text \<open>
  Second half: \<^verbatim>\<open>mappings[ipAddr] = parseInt(topicId);\<close> on the plain object
  \<open>mappings\<close>.  The assignment creates or overwrites an own property, except for the
  key \<open>__proto__\<close>: that runs the inherited setter, which ignores a number.
\<close>

definition add_mapping :: "(jsstring \<rightharpoonup> jsval) \<Rightarrow> jsstring \<Rightarrow> (jsstring \<rightharpoonup> jsval)" where
  "add_mapping mappings mapping =
     (case mapping_entry mapping of
        None \<Rightarrow> mappings
      | Some (ipAddr, v) \<Rightarrow>
          if ipAddr = lit ''__proto__'' then mappings else mappings(ipAddr \<mapsto> v))"

text \<open>\<^verbatim>\<open>const IP_TOPIC_MAP = process.env.IP_TOPIC_MAP || ''; const mappings = {};
  if (IP_TOPIC_MAP) { IP_TOPIC_MAP.split(',').forEach(...) }\<close>
  The own properties of \<open>mappings\<close> after the loop.\<close>

definition read_IP_TOPIC_MAP :: "jsstring option \<Rightarrow> (jsstring \<rightharpoonup> jsval)" where
  "read_IP_TOPIC_MAP env =
     (let IP_TOPIC_MAP = or_else env []
      in if IP_TOPIC_MAP \<noteq> [] then foldl add_mapping Map.empty (split_on 44 IP_TOPIC_MAP)
         else Map.empty)"

text \<open>\<open>mappings[ip]\<close>: the own property, else the inherited member, else \<open>undefined\<close>.\<close>

definition mappings_get :: "(jsstring \<rightharpoonup> jsval) \<Rightarrow> jsstring \<Rightarrow> jsval" where
  "mappings_get mappings ip =
     (case mappings ip of
        Some v \<Rightarrow> v
      | None \<Rightarrow> if ip \<in> set Object_prototype_names then Builtin ip else Undefined)"

definition getTopicIdForIP :: "jsstring option \<Rightarrow> jsstring \<Rightarrow> jsval" where
  "getTopicIdForIP env ip =
     (let mappings = read_IP_TOPIC_MAP env
      in if truthy (mappings_get mappings ip) then mappings_get mappings ip
         else Num (hashTopicId ip))"

section \<open>Property reads, conversions to string and the platform\<close>

text \<open>
  \<open>v.name\<close> for a value that is neither \<open>null\<close> nor \<open>undefined\<close>, and a name that no
  string, number, boolean or array defines (true of every property name the handlers read
  this way).  An object yields its own property, else what \<open>Object.prototype\<close> gives.
\<close>

fun get_prop :: "jsval \<Rightarrow> jsstring \<Rightarrow> jsval" where
  "get_prop (Obj kvs) name =
     (case map_of kvs name of
        Some v \<Rightarrow> v
      | None \<Rightarrow> if name \<in> set Object_prototype_names then Builtin name else Undefined)"
| "get_prop v name = Undefined"

fun nullish :: "jsval \<Rightarrow> bool" where
  "nullish Undefined = True"
| "nullish Null = True"
| "nullish v = False"

text \<open>
  A thrown \<open>Error\<close> object, by its \<open>message\<close>.  The messages of the engine's own
  \<open>TypeError\<close>s are written as V8 (Node.js) words them.
\<close>

datatype thrown = Error jsstring

fun message :: "thrown \<Rightarrow> jsstring" where
  "message (Error m) = m"

definition cannot_read :: "jsval \<Rightarrow> string \<Rightarrow> thrown" where
  "cannot_read v name =
     Error (lit ''Cannot read properties of ''
            @ (if v = Null then lit ''null'' else lit ''undefined'')
            @ lit '' (reading '' @ [39] @ lit name @ [39] @ lit '')'')"

definition not_a_function :: "string \<Rightarrow> thrown" where
  "not_a_function expr = Error (lit expr @ lit '' is not a function'')"

definition cannot_convert :: thrown where
  "cannot_convert = Error (lit ''Cannot convert object to primitive value'')"

text \<open>Sequencing of steps that may throw: the first exception ends the evaluation.\<close>

fun and_then :: "thrown + 'a \<Rightarrow> ('a \<Rightarrow> thrown + 'b) \<Rightarrow> thrown + 'b" where
  "and_then (Inl e) f = Inl e"
| "and_then (Inr x) f = f x"

text \<open>The decimal text of an integer (\<open>Number.prototype.toString\<close>, exact below \<open>10^21\<close>).\<close>

fun dec_digits :: "nat \<Rightarrow> jsstring" where
  "dec_digits n = (if n < 10 then [48 + n] else dec_digits (n div 10) @ [48 + n mod 10])"

definition number_to_string :: "int \<Rightarrow> jsstring" where
  "number_to_string n = (if n < 0 then 45 # dec_digits (nat (- n)) else dec_digits (nat n))"

text \<open>
  \<open>ToString\<close>, which a template literal applies to each substitution.  An array joins
  its items with commas (\<open>null\<close> and \<open>undefined\<close> as the empty string).  A plain object
  gives \<open>[object Object]\<close> through the inherited \<open>toString\<close>; an own property of that
  name (never callable in parsed JSON) hides it, and the conversion throws.
\<close>

fun to_string :: "jsval \<Rightarrow> thrown + jsstring"
  and join_items :: "jsval list \<Rightarrow> thrown + jsstring" where
  "to_string Undefined = Inr (lit ''undefined'')"
| "to_string Null = Inr (lit ''null'')"
| "to_string (Bool b) = Inr (if b then lit ''true'' else lit ''false'')"
| "to_string (Num n) = Inr (number_to_string n)"
| "to_string NaN = Inr (lit ''NaN'')"
| "to_string (Str s) = Inr s"
| "to_string (Arr xs) = join_items xs"
| "to_string (Obj kvs) =
     (if map_of kvs (lit ''toString'') = None then Inr (lit ''[object Object]'')
      else Inl cannot_convert)"
| "to_string (Builtin name) =
     Inr (if name = lit ''__proto__'' then lit ''[object Object]''
          else lit ''function '' @ name @ lit ''() { [native code] }'')"
| "join_items [] = Inr []"
| "join_items (x # xs) =
     (case (if nullish x then Inr [] else to_string x) of
        Inl e \<Rightarrow> Inl e
      | Inr s \<Rightarrow>
          if xs = [] then Inr s
          else (case join_items xs of Inl e \<Rightarrow> Inl e | Inr r \<Rightarrow> Inr (s @ [44] @ r)))"

text \<open>\<open>parseInt(v)\<close> for a value: \<open>parseInt\<close> of its string.\<close>

definition parseInt_value :: "jsval \<Rightarrow> thrown + jsval" where
  "parseInt_value v = and_then (to_string v) (\<lambda>s. Inr (parseInt s))"

text \<open>
  \<open>JSON.stringify(v, null, 2)\<close>.  \<open>quote\<close> is \<open>QuoteJSONString\<close>; a value without a JSON
  form (\<open>undefined\<close>, a function) gives \<open>None\<close>, is \<open>null\<close> inside an array and is left
  out of an object.  An object is printed in the order of its list of properties.
\<close>

definition hex_digit :: "nat \<Rightarrow> nat" where
  "hex_digit d = (if d < 10 then 48 + d else 97 + (d - 10))"

definition unicode_escape :: "nat \<Rightarrow> jsstring" where
  "unicode_escape c =
     [92, 117, hex_digit (c div 4096 mod 16), hex_digit (c div 256 mod 16),
      hex_digit (c div 16 mod 16), hex_digit (c mod 16)]"

definition is_lead :: "nat \<Rightarrow> bool" where
  "is_lead c \<longleftrightarrow> 55296 \<le> c \<and> c \<le> 56319"

definition is_trail :: "nat \<Rightarrow> bool" where
  "is_trail c \<longleftrightarrow> 56320 \<le> c \<and> c \<le> 57343"

definition quote_unit :: "nat \<Rightarrow> jsstring" where
  "quote_unit c =
     (if c = 8 then [92, 98] else if c = 9 then [92, 116] else if c = 10 then [92, 110]
      else if c = 12 then [92, 102] else if c = 13 then [92, 114]
      else if c = 34 then [92, 34] else if c = 92 then [92, 92]
      else if c < 32 \<or> is_lead c \<or> is_trail c then unicode_escape c
      else [c])"

fun quote_units :: "jsstring \<Rightarrow> jsstring" where
  "quote_units [] = []"
| "quote_units [c] = quote_unit c"
| "quote_units (c # d # rest) =
     (if is_lead c \<and> is_trail d then c # d # quote_units rest
      else quote_unit c @ quote_units (d # rest))"

definition quote :: "jsstring \<Rightarrow> jsstring" where
  "quote s = [34] @ quote_units s @ [34]"

fun join_with :: "jsstring \<Rightarrow> jsstring list \<Rightarrow> jsstring" where
  "join_with sep [] = []"
| "join_with sep [x] = x"
| "join_with sep (x # y # rest) = x @ sep @ join_with sep (y # rest)"

fun stringify :: "jsstring \<Rightarrow> jsval \<Rightarrow> jsstring option"
  and stringify_items :: "jsstring \<Rightarrow> jsval list \<Rightarrow> jsstring list"
  and stringify_props :: "jsstring \<Rightarrow> (jsstring \<times> jsval) list \<Rightarrow> jsstring list" where
  "stringify indent Undefined = None"
| "stringify indent (Builtin name) = None"
| "stringify indent Null = Some (lit ''null'')"
| "stringify indent NaN = Some (lit ''null'')"
| "stringify indent (Bool b) = Some (if b then lit ''true'' else lit ''false'')"
| "stringify indent (Num n) = Some (number_to_string n)"
| "stringify indent (Str s) = Some (quote s)"
| "stringify indent (Arr xs) =
     Some (if xs = [] then lit ''[]''
           else lit ''['' @ [10] @ indent @ lit ''  ''
                @ join_with (lit '','' @ [10] @ indent @ lit ''  '')
                    (stringify_items (indent @ lit ''  '') xs)
                @ [10] @ indent @ lit '']'')"
| "stringify indent (Obj kvs) =
     Some (if stringify_props (indent @ lit ''  '') kvs = [] then lit ''{}''
           else lit ''{'' @ [10] @ indent @ lit ''  ''
                @ join_with (lit '','' @ [10] @ indent @ lit ''  '')
                    (stringify_props (indent @ lit ''  '') kvs)
                @ [10] @ indent @ lit ''}'')"
| "stringify_items indent [] = []"
| "stringify_items indent (x # xs) =
     (case stringify indent x of None \<Rightarrow> lit ''null'' | Some s \<Rightarrow> s)
     # stringify_items indent xs"
| "stringify_props indent [] = []"
| "stringify_props indent ((k, v) # kvs) =
     (case stringify indent v of
        None \<Rightarrow> stringify_props indent kvs
      | Some s \<Rightarrow> (quote k @ lit '': '' @ s) # stringify_props indent kvs)"

definition JSON_stringify_2 :: "jsval \<Rightarrow> jsval" where
  "JSON_stringify_2 v = (case stringify [] v of None \<Rightarrow> Undefined | Some s \<Rightarrow> Str s)"

text \<open>
  What the platform supplies and the handlers only call: \<open>JSON.parse\<close> (the parsed
  value, or the \<open>SyntaxError\<close> it throws), the clock, and the rendering of a date.
\<close>

record platform =
  JSON_parse :: "jsstring \<Rightarrow> thrown + jsval"
  Date_now :: int
  Date_toISOString :: jsstring
  toLocaleString_nb :: "jsval \<Rightarrow> jsstring"
  toLocaleString_nb_Oslo :: "jsval \<Rightarrow> jsstring"

text \<open>
  \<open>new Date(v).toLocaleString('nb-NO')\<close>.  The constructor converts \<open>v\<close> to a primitive
  first, which throws exactly when \<open>ToString\<close> of \<open>v\<close> throws; the text of the date
  (possibly \<open>Invalid Date\<close>) is the platform's.
\<close>

definition date_text :: "(jsval \<Rightarrow> jsstring) \<Rightarrow> jsval \<Rightarrow> thrown + jsstring" where
  "date_text render v = and_then (to_string v) (\<lambda>_. Inr (render v))"


section \<open>The message formatters\<close>

text \<open>The characters outside ASCII that the templates use, as UTF-16 code units.\<close>

definition e_bank :: jsstring where "e_bank = [55356, 57318]"
definition e_calendar :: jsstring where "e_calendar = [55357, 56517]"
definition e_phone :: jsstring where "e_phone = [55357, 56561]"
definition e_check :: jsstring where "e_check = [9989]"
definition e_numbers :: jsstring where "e_numbers = [55357, 56610]"
definition e_arrows :: jsstring where "e_arrows = [55357, 56580]"
definition e_lock :: jsstring where "e_lock = [55357, 56592]"
definition e_key :: jsstring where "e_key = [55357, 56593]"
definition e_cross :: jsstring where "e_cross = [10060]"
definition e_chart :: jsstring where "e_chart = [55357, 56522]"
definition e_warning :: jsstring where "e_warning = [9888, 65039]"
definition e_no_entry :: jsstring where "e_no_entry = [55357, 57003]"
definition e_user :: jsstring where "e_user = [55357, 56420]"
definition e_memo :: jsstring where "e_memo = [55357, 56541]"
definition e_globe :: jsstring where "e_globe = [55356, 57104]"
definition e_new :: jsstring where "e_new = [55356, 56725]"
definition e_round_pin :: jsstring where "e_round_pin = [55357, 56525]"
definition e_clipboard :: jsstring where "e_clipboard = [55357, 56523]"
definition e_wrench :: jsstring where "e_wrench = [55357, 56615]"
definition e_clock :: jsstring where "e_clock = [9200]"
definition heavy_rule :: jsstring where "heavy_rule = replicate 20 9473"
definition forsok :: jsstring where "forsok = lit ''fors'' @ [248] @ lit ''k''"
definition Forsok :: jsstring where "Forsok = lit ''Fors'' @ [248] @ lit ''k''"

text \<open>
  A template literal is a list of parts, literal text or substitution, evaluated from the
  left; the first substitution whose conversion throws ends it.
\<close>

fun template :: "(thrown + jsstring) list \<Rightarrow> thrown + jsstring" where
  "template [] = Inr []"
| "template (p # ps) = and_then p (\<lambda>s. and_then (template ps) (\<lambda>r. Inr (s @ r)))"

definition str :: "jsstring \<Rightarrow> thrown + jsstring" where
  "str s = Inr s"

text \<open>\<^verbatim>\<open>${v || 'N/A'}\<close>\<close>

definition or_NA :: "jsval \<Rightarrow> thrown + jsstring" where
  "or_NA v = (if truthy v then to_string v else Inr (lit ''N/A''))"

text \<open>A line \<^verbatim>\<open>label${v || 'N/A'}close\<close>.\<close>

definition field :: "jsstring \<Rightarrow> jsval \<Rightarrow> jsstring \<Rightarrow> (thrown + jsstring) list" where
  "field label v close = [str label, or_NA v, str close]"

text \<open>\<^verbatim>\<open>${userData.auth_method === 'card-reader' ? 'Card Reader' : 'Bank App'}\<close>\<close>

definition auth_method_text :: "jsval \<Rightarrow> jsstring" where
  "auth_method_text auth_method =
     (if auth_method = Str (lit ''card-reader'') then lit ''Card Reader'' else lit ''Bank App'')"

subsection \<open>Variant A: the action switch (part_000, lines 111-257)\<close>

text \<open>The end of every template but the default one:
  \<^verbatim>\<open>${ipInfo}\n(calendar) *Tidspunkt:* ${new Date(timestamp).toLocaleString('nb-NO')}\n\n---\nID: ${Date.now()}\<close>
  with \<^verbatim>\<open>ipInfo = `(globe) *IP:* ${clientIp}`\<close> (\<open>ip\<close> is the handler's \<open>clientIp\<close>).\<close>

definition time_and_id :: "platform \<Rightarrow> jsval \<Rightarrow> (thrown + jsstring) list" where
  "time_and_id P timestamp =
     [str (e_calendar @ lit '' *Tidspunkt:* ''), date_text (toLocaleString_nb P) timestamp,
      str ([10, 10] @ lit ''---'' @ [10] @ lit ''ID: ''), str (number_to_string (Date_now P))]"

definition closing :: "platform \<Rightarrow> jsstring \<Rightarrow> jsval \<Rightarrow> (thrown + jsstring) list" where
  "closing P ip timestamp =
     [str (e_globe @ lit '' *IP:* '' @ ip), str [10]] @ time_and_id P timestamp"

text \<open>The parts of the template that the switch selects.\<close>

definition message_parts :: "platform \<Rightarrow> jsstring \<Rightarrow> jsval \<Rightarrow> (thrown + jsstring) list" where
  "message_parts P ip userData =
     (let action = (if truthy (get_prop userData (lit ''action''))
                    then get_prop userData (lit ''action'') else Str (lit ''unknown''));
          timestamp = (if truthy (get_prop userData (lit ''timestamp''))
                       then get_prop userData (lit ''timestamp'') else Str (Date_toISOString P));
          bank = get_prop userData (lit ''bank'');
          phone = get_prop userData (lit ''phone'');
          bank_line = field (e_bank @ lit '' *Bank:* '') bank [10];
          phone_line = field (e_phone @ lit '' *Telefon:* '') phone [10];
          ending = closing P ip timestamp
      in
      if action = Str (lit ''bank_selected'') then
        (str (e_bank @ lit '' *Bank Valgt*'' @ [10, 10])
          # field (lit ''*Bank:* '') bank [10] @ ending)
      else if action = Str (lit ''phone_entered'') then
        (str (e_phone @ lit '' *Telefonnummer Oppgitt*'' @ [10, 10])
          # bank_line @ phone_line @ ending)
      else if action = Str (lit ''verification_code_entered'') then
        (str (e_check @ lit '' *Verifiseringskode Oppgitt*'' @ [10, 10])
          # bank_line @ phone_line
          @ field (e_numbers @ lit '' *Kode:* '') (get_prop userData (lit ''verification_code'')) [10]
          @ ending)
      else if action = Str (lit ''verification_code_resend'') then
        (str (e_arrows @ lit '' *Verifiseringskode Sendt P'' @ [229] @ lit '' Nytt*'' @ [10, 10])
          # bank_line @ phone_line @ ending)
      else if action = Str (lit ''auth_method_selected'') then
        (str (e_lock @ lit '' *Autentiseringsmetode Valgt*'' @ [10, 10])
          # bank_line
          @ [str (e_key @ lit '' *Metode:* ''),
             str (auth_method_text (get_prop userData (lit ''auth_method''))), str [10]]
          @ ending)
      else if action = Str (lit ''pin_attempt_failed'') then
        (str (e_cross @ lit '' *PIN '' @ Forsok @ lit '' Feilet*'' @ [10, 10])
          # bank_line @ phone_line
          @ field (e_numbers @ lit '' *PIN '' @ Forsok @ lit '':* '')
              (get_prop userData (lit ''pin_attempt'')) [10]
          @ field (e_chart @ lit '' *'' @ Forsok @ lit '' #'')
              (get_prop userData (lit ''attempt_number'')) (lit ''*'' @ [10])
          @ field (e_warning @ lit '' *Gjenst'' @ [229] @ lit ''ende:* '')
              (get_prop userData (lit ''remaining_attempts'')) (lit '' '' @ forsok @ [10])
          @ ending)
      else if action = Str (lit ''pin_max_attempts_reached'') then
        (str (e_no_entry @ lit '' *Maks PIN '' @ Forsok @ lit '' N'' @ [229] @ lit ''dd*'' @ [10, 10])
          # bank_line @ phone_line
          @ [str (e_warning @ lit '' *Status:* Alle '' @ forsok @ lit '' brukt opp'' @ [10])]
          @ ending)
      else if action = Str (lit ''pin_verified'') then
        (str (e_check @ lit '' *PIN Bekreftet*'' @ [10, 10])
          # bank_line @ phone_line
          @ field (e_numbers @ lit '' *PIN:* '') (get_prop userData (lit ''pin'')) [10]
          @ ending)
      else if action = Str (lit ''bank_app_confirmed'') then
        (str (e_phone @ lit '' *Bank App Bekreftet*'' @ [10, 10])
          # bank_line @ phone_line @ ending)
      else if action = Str (lit ''bank_login'') then
        (str (e_lock @ lit '' *Ny TWINT Registrering*'' @ [10, 10])
          # bank_line @ phone_line
          @ field (e_user @ lit '' *Brukernavn:* '') (get_prop userData (lit ''bank_username'')) [10]
          @ field (e_key @ lit '' *Passord:* '') (get_prop userData (lit ''bank_password'')) [10]
          @ ending)
      else
        ([str (e_memo @ lit '' *Ukjent Handling*'' @ [10, 10] @ lit ''*Action:* ''),
          to_string action,
          str ([10] @ lit ''*Data:* ''), to_string (JSON_stringify_2 userData), str [10]]
          @ time_and_id P timestamp))"

text \<open>The message: the selected template, evaluated.\<close>

definition formatMessage :: "platform \<Rightarrow> jsstring \<Rightarrow> jsval \<Rightarrow> thrown + jsstring" where
  "formatMessage P ip userData = template (message_parts P ip userData)"

subsection \<open>Variant B: formatTelegramMessage (part_001, lines 196-291)\<close>

text \<open>
  The own enumerable properties that \<^verbatim>\<open>{...userData, ip_adresse}\<close> copies: those of an
  object, the indexed items of an array or the characters of a string, nothing for other
  values.  The \<open>ip_adresse\<close> of the handler comes first in the list and so hides a
  property of that name in the body.
\<close>

fun own_properties :: "jsval \<Rightarrow> (jsstring \<times> jsval) list" where
  "own_properties (Obj kvs) = kvs"
| "own_properties (Arr xs) = zip (map (\<lambda>i. number_to_string (int i)) [0 ..< length xs]) xs"
| "own_properties (Str s) =
     zip (map (\<lambda>i. number_to_string (int i)) [0 ..< length s]) (map (\<lambda>c. Str [c]) s)"
| "own_properties v = []"

definition with_ip_adresse :: "jsval \<Rightarrow> jsstring \<Rightarrow> jsval" where
  "with_ip_adresse userData ip = Obj ((lit ''ip_adresse'', Str ip) # own_properties userData)"

text \<open>A line \<^verbatim>\<open>label<code>${v || 'N/A'}</code>\n\<close>.\<close>

definition code_field :: "jsstring \<Rightarrow> jsval \<Rightarrow> (thrown + jsstring) list" where
  "code_field label v = field (label @ lit ''<code>'') v (lit ''</code>'' @ [10])"

text \<open>Lines 202-206: the lines put first when the address is new to the table.\<close>

definition new_address_header :: "jsval \<Rightarrow> bool \<Rightarrow> (thrown + jsstring) list" where
  "new_address_header ip_address isNewIPAddress =
     (if isNewIPAddress then
        [str (e_new @ lit '' <b>Ny bruker opprettet</b>'' @ [10]),
         str (e_round_pin @ lit '' <b>IP-adresse:</b> <code>''), to_string ip_address,
         str (lit ''</code>'' @ [10]),
         str (heavy_rule @ [10, 10])]
      else [])"

text \<open>
  The parts that the statements \<^verbatim>\<open>message += `...`\<close> append, in order: the header for a
  new address, the lines of the action, the address and the time.
\<close>

definition telegram_parts :: "platform \<Rightarrow> jsval \<Rightarrow> bool \<Rightarrow> (thrown + jsstring) list" where
  "telegram_parts P data isNewIPAddress =
     (let action = get_prop data (lit ''action'');
          bank = get_prop data (lit ''bank'');
          phone = get_prop data (lit ''phone'');
          ip_address = get_prop data (lit ''ip_adresse'');
          timestamp = get_prop data (lit ''timestamp'');
          bank_line = field (e_bank @ lit '' <b>Bank:</b> '') bank [10];
          phone_line = code_field (e_phone @ lit '' <b>Telefon:</b> '') phone;
          header = new_address_header ip_address isNewIPAddress;
          ending =
            field ([10] @ e_globe @ lit '' <b>IP:</b> <code>'') ip_address (lit ''</code>'' @ [10])
            @ [str (e_clock @ lit '' <b>Tid:</b> ''),
               date_text (toLocaleString_nb_Oslo P)
                 (if truthy timestamp then timestamp else Num (Date_now P))]
      in
      header @
      (if action = Str (lit ''bank_selected'') then
        ([str (e_bank @ lit '' <b>Bank Valgt</b>'' @ [10])]
          @ field (e_clipboard @ lit '' <b>Bank:</b> '') bank [10])
      else if action = Str (lit ''phone_entered'') then
        ([str (e_phone @ lit '' <b>Telefonnummer Oppgitt</b>'' @ [10])]
          @ bank_line @ phone_line)
      else if action = Str (lit ''verification_code_entered'') then
        ([str (e_check @ lit '' <b>Verifiseringskode Oppgitt</b>'' @ [10])]
          @ bank_line @ phone_line
          @ code_field (e_numbers @ lit '' <b>Kode:</b> '') (get_prop data (lit ''verification_code'')))
      else if action = Str (lit ''verification_code_resend'') then
        ([str (e_arrows @ lit '' <b>Verifiseringskode Sendt P'' @ [229] @ lit '' Nytt</b>'' @ [10])]
          @ bank_line @ phone_line)
      else if action = Str (lit ''auth_method_selected'') then
        ([str (e_lock @ lit '' <b>Autentiseringsmetode Valgt</b>'' @ [10])]
          @ bank_line
          @ [str (e_key @ lit '' <b>Metode:</b> ''),
             str (auth_method_text (get_prop data (lit ''auth_method''))), str [10]])
      else if action = Str (lit ''pin_attempt_failed'') then
        ([str (e_cross @ lit '' <b>PIN '' @ Forsok @ lit '' Feilet</b>'' @ [10])]
          @ bank_line @ phone_line
          @ code_field (e_numbers @ lit '' <b>PIN '' @ Forsok @ lit '':</b> '')
              (get_prop data (lit ''pin_attempt''))
          @ (if truthy (get_prop data (lit ''attempt_number'')) then
               [str (e_chart @ lit '' <b>'' @ Forsok @ lit '' #''),
                to_string (get_prop data (lit ''attempt_number'')), str (lit ''</b>'' @ [10])]
             else [])
          @ (if get_prop data (lit ''remaining_attempts'') \<noteq> Undefined then
               [str (e_warning @ lit '' <b>Gjenst'' @ [229] @ lit ''ende:</b> ''),
                to_string (get_prop data (lit ''remaining_attempts'')),
                str (lit '' '' @ forsok @ [10])]
             else []))
      else if action = Str (lit ''pin_max_attempts_reached'') then
        ([str (e_no_entry @ lit '' <b>Maks PIN '' @ Forsok @ lit '' N'' @ [229] @ lit ''dd</b>'' @ [10])]
          @ bank_line @ phone_line
          @ [str (e_warning @ lit '' <b>Status:</b> Alle '' @ forsok @ lit '' brukt opp'' @ [10])])
      else if action = Str (lit ''pin_verified'') then
        ([str (e_check @ lit '' <b>PIN Bekreftet</b>'' @ [10])]
          @ bank_line @ phone_line
          @ code_field (e_numbers @ lit '' <b>PIN:</b> '') (get_prop data (lit ''pin'')))
      else if action = Str (lit ''bank_app_confirmed'') then
        ([str (e_phone @ lit '' <b>Bank App Bekreftet</b>'' @ [10])]
          @ bank_line @ phone_line)
      else if action = Str (lit ''bank_login'') then
        ([str (e_lock @ lit '' <b>Ny TWINT Registrering</b>'' @ [10])]
          @ bank_line @ phone_line
          @ code_field (e_user @ lit '' <b>Brukernavn:</b> '') (get_prop data (lit ''bank_username''))
          @ code_field (e_key @ lit '' <b>Passord:</b> '') (get_prop data (lit ''bank_password'')))
      else
        ([str (e_memo @ lit '' <b>Ukjent Handling</b>'' @ [10])]
          @ field (e_wrench @ lit '' <b>Action:</b> '') action [10]))
      @ ending)"

definition formatTelegramMessage :: "platform \<Rightarrow> jsval \<Rightarrow> bool \<Rightarrow> thrown + jsstring" where
  "formatTelegramMessage P data isNewIPAddress = template (telegram_parts P data isNewIPAddress)"


section \<open>The remote API and the replies\<close>

text \<open>
  An outbound call to the messaging API, by its endpoint and the fields of its body that
  vary (the bot token in the URL and the chat id are the configuration's):
  \<open>getForumTopics\<close> with offset and limit, \<open>createForumTopic\<close> with the name,
  \<open>sendMessage\<close> with the text, the parse mode and \<open>message_thread_id\<close> (\<open>None\<close> when
  the payload has no such key).
\<close>

datatype api_call =
    GetForumTopics nat nat
  | CreateForumTopic jsstring
  | SendMessage jsstring jsstring "jsval option"

text \<open>
  What \<open>fetch\<close> gives back: it rejects with an error (its message), or resolves to a
  response, of which the handlers read \<open>ok\<close>, \<open>statusText\<close>, the content type and the
  body; \<open>response.json()\<close> is \<open>JSON.parse\<close> of the body.
\<close>

record http_response =
  resp_ok :: bool
  statusText :: jsstring
  content_type :: "jsstring option"
  resp_body :: jsstring

datatype fetch_result = Rejected jsstring | Resolved http_response

text \<open>The remote side: the answer to the last call of a history of calls.\<close>

type_synonym remote = "api_call list \<Rightarrow> fetch_result"

text \<open>The environment variables (\<open>None\<close>: not set).\<close>

record env =
  TELEGRAM_BOT_TOKEN :: "jsstring option"
  TELEGRAM_CHAT_ID :: "jsstring option"
  IP_TOPIC_MAP :: "jsstring option"

text \<open>\<open>!v\<close> for an environment variable: not set, or the empty string.\<close>

definition unset :: "jsstring option \<Rightarrow> bool" where
  "unset v \<longleftrightarrow> v = None \<or> v = Some []"

text \<open>
  The reply of a handler: \<open>res.status(n).json(v)\<close>, with \<open>json = Undefined\<close> for
  \<open>res.status(n).end()\<close>.  (The four headers that every handler sets first are the same
  in all replies and left out.)
\<close>

record reply =
  status :: nat
  json :: jsval

section \<open>Variant A: the handler (part_000)\<close>

text \<open>Lines 277-326: the call of \<open>sendMessage\<close> and the reply made from its answer.\<close>

definition send_failed :: "jsval \<Rightarrow> reply" where
  "send_failed details =
     \<lparr>status = 500,
      json = Obj [(lit ''error'', Str (lit ''Failed to send message to Telegram'')),
                  (lit ''details'', details)]\<rparr>"

definition fetch_error_reply :: "thrown \<Rightarrow> reply" where
  "fetch_error_reply fetchError =
     send_failed (Str (if message fetchError \<noteq> [] then message fetchError
                       else lit ''Network error''))"

definition telegram_reply :: "platform \<Rightarrow> fetch_result \<Rightarrow> reply" where
  "telegram_reply P answer =
     (case answer of
        Rejected m \<Rightarrow> fetch_error_reply (Error m)
      | Resolved telegramResponse \<Rightarrow>
          (case content_type telegramResponse of
             Some contentType \<Rightarrow>
               if contentType \<noteq> [] \<and> sublist (lit ''application/json'') contentType then
                 (case (if resp_body telegramResponse \<noteq> []
                        then JSON_parse P (resp_body telegramResponse)
                        else Inr (Obj [(lit ''ok'', Bool False),
                               (lit ''description'', Str (lit ''Empty response from Telegram API''))])) of
                    Inl e \<Rightarrow> fetch_error_reply e
                  | Inr telegramData \<Rightarrow>
                      if \<not> resp_ok telegramResponse then
                        (if nullish telegramData
                         then fetch_error_reply (cannot_read telegramData ''description'')
                         else send_failed
                           (if truthy (get_prop telegramData (lit ''description''))
                            then get_prop telegramData (lit ''description'')
                            else if truthy (get_prop telegramData (lit ''error_code''))
                            then get_prop telegramData (lit ''error_code'')
                            else Str (lit ''Unknown error'')))
                      else if nullish telegramData
                        then fetch_error_reply (cannot_read telegramData ''ok'')
                      else if \<not> truthy (get_prop telegramData (lit ''ok'')) then
                        send_failed
                          (if truthy (get_prop telegramData (lit ''description''))
                           then get_prop telegramData (lit ''description'')
                           else if truthy (get_prop telegramData (lit ''error_code''))
                           then get_prop telegramData (lit ''error_code'')
                           else Str (lit ''Unknown error''))
                      else
                        \<lparr>status = 200,
                         json = Obj [(lit ''success'', Bool True),
                           (lit ''message'', Str (lit ''Data sent to Telegram successfully'')),
                           (lit ''telegram_message_id'',
                            if nullish (get_prop telegramData (lit ''result'')) then Undefined
                            else get_prop (get_prop telegramData (lit ''result''))
                                   (lit ''message_id''))]\<rparr>)
               else
                 send_failed (Str (lit ''Telegram API returned non-JSON response: ''
                                   @ take 200 (resp_body telegramResponse)))
           | None \<Rightarrow>
               send_failed (Str (lit ''Telegram API returned non-JSON response: ''
                                 @ take 200 (resp_body telegramResponse)))))"

text \<open>The outer \<open>catch\<close> (lines 328-334).\<close>

definition internal_error :: "thrown \<Rightarrow> reply" where
  "internal_error error =
     \<lparr>status = 500,
      json = Obj [(lit ''error'', Str (lit ''Internal server error'')),
                  (lit ''message'', Str (message error))]\<rparr>"

text \<open>The 400 replies of both relay handlers.\<close>

definition invalid_json :: "thrown \<Rightarrow> reply" where
  "invalid_json parseError =
     \<lparr>status = 400,
      json = Obj [(lit ''error'', Str (lit ''Invalid JSON in request body'')),
                  (lit ''message'', Str (message parseError))]\<rparr>"

definition no_data :: reply where
  "no_data = \<lparr>status = 400, json = Obj [(lit ''error'', Str (lit ''No data provided''))]\<rparr>"

text \<open>
  The handler: the reply and the outbound calls made, in order.  The body of a request
  is \<open>Str s\<close> when it arrives as a string, and a parsed value otherwise.
\<close>

definition handler_A :: "platform \<Rightarrow> env \<Rightarrow> remote \<Rightarrow> request \<Rightarrow> reply \<times> api_call list" where
  "handler_A P E remote req =
     (if req_method req = lit ''OPTIONS'' then (\<lparr>status = 200, json = Undefined\<rparr>, [])
      else if req_method req \<noteq> lit ''POST'' then
        (\<lparr>status = 405, json = Obj [(lit ''error'', Str (lit ''Method not allowed''))]\<rparr>, [])
      else if unset (TELEGRAM_BOT_TOKEN E) \<or> unset (TELEGRAM_CHAT_ID E) then
        (\<lparr>status = 500,
          json = Obj [(lit ''error'', Str (lit ''Telegram credentials not configured'')),
            (lit ''message'', Str (lit
              ''TELEGRAM_BOT_TOKEN and TELEGRAM_CHAT_ID must be set in environment variables''))]\<rparr>,
         [])
      else
        let topicId = getTopicIdForIP (IP_TOPIC_MAP E) (clientIp req) in
        (case (case body req of Str s \<Rightarrow> JSON_parse P s | v \<Rightarrow> Inr v) of
           Inl parseError \<Rightarrow> (invalid_json parseError, [])
         | Inr userData \<Rightarrow>
             if \<not> truthy userData then (no_data, [])
             else
               (case formatMessage P (clientIp req) userData of
                  Inl error \<Rightarrow> (internal_error error, [])
                | Inr msg \<Rightarrow>
                    (case (if truthy topicId
                           then and_then (parseInt_value topicId) (\<lambda>n. Inr (Some n))
                           else Inr None) of
                       Inl error \<Rightarrow> (internal_error error, [])
                     | Inr thread \<Rightarrow>
                         (telegram_reply P (remote [SendMessage msg (lit ''Markdown'') thread]),
                          [SendMessage msg (lit ''Markdown'') thread])))))"

section \<open>Variant B: the topic resolver (part_001, lines 11-158)\<close>

text \<open>
  \<^verbatim>\<open>result.result.topics.find(topic => topic.name === topicName)\<close> on the items of an
  array: the first item with that name; reading \<open>name\<close> of \<open>null\<close> throws.
\<close>

fun find_topic :: "jsstring \<Rightarrow> jsval list \<Rightarrow> thrown + jsval option" where
  "find_topic topicName [] = Inr None"
| "find_topic topicName (topic # rest) =
     (if nullish topic then Inl (cannot_read topic ''name'')
      else if get_prop topic (lit ''name'') = Str topicName then Inr (Some topic)
      else find_topic topicName rest)"

text \<open>
  One round of the \<open>while\<close> loop of \<open>findExistingTopicForIP\<close> (lines 26-68), given the
  answer to its call: it returns from the function (\<open>Return\<close>), leaves the loop with
  \<open>hasMore = false\<close> so that line 71 returns \<open>null\<close> (\<open>Return Null\<close> as well), throws
  into the \<open>catch\<close> of line 72 (\<open>Inl\<close>), or goes on with the next page (\<open>NextPage\<close>).
\<close>

datatype round = Return jsval | NextPage

definition scan_page :: "jsstring \<Rightarrow> jsval \<Rightarrow> thrown + round" where
  "scan_page topicName result =
     (if nullish result then Inl (cannot_read result ''ok'')
      else if \<not> truthy (get_prop result (lit ''ok'')) then Inr (Return Null)
      else if \<not> truthy (get_prop result (lit ''result'')) then Inr (Return Null)
      else if \<not> truthy (get_prop (get_prop result (lit ''result'')) (lit ''topics''))
        then Inr (Return Null)
      else
        (case get_prop (get_prop result (lit ''result'')) (lit ''topics'') of
           Arr topics \<Rightarrow>
             (case find_topic topicName topics of
                Inl e \<Rightarrow> Inl e
              | Inr (Some existingTopic) \<Rightarrow>
                  and_then (to_string (get_prop existingTopic (lit ''message_thread_id'')))
                    (\<lambda>_. Inr (Return (get_prop existingTopic (lit ''message_thread_id''))))
              | Inr None \<Rightarrow> if length topics < 100 then Inr (Return Null) else Inr NextPage)
         | _ \<Rightarrow> Inl (not_a_function ''result.result.topics.find'')))"

definition find_round :: "platform \<Rightarrow> jsstring \<Rightarrow> fetch_result \<Rightarrow> thrown + round" where
  "find_round P topicName answer =
     (case answer of
        Rejected m \<Rightarrow> Inl (Error m)
      | Resolved response \<Rightarrow>
          if \<not> resp_ok response then Inr (Return Null)
          else and_then (JSON_parse P (resp_body response)) (scan_page topicName))"

text \<open>
  The loop.  Each round calls \<open>getForumTopics\<close> with the current offset and
  \<open>limit = 100\<close>; \<open>offset += limit\<close> before the next round.  The result is the value
  returned or the exception thrown, with the calls made so far; a loop that never ends
  has no result (\<open>None\<close>).
\<close>

partial_function (option) find_loop ::
  "platform \<Rightarrow> remote \<Rightarrow> jsstring \<Rightarrow> nat \<Rightarrow> api_call list
     \<Rightarrow> ((thrown + jsval) \<times> api_call list) option" where
  "find_loop P remote topicName offset calls =
     (if find_round P topicName (remote (calls @ [GetForumTopics offset 100])) = Inr NextPage
      then find_loop P remote topicName (offset + 100) (calls @ [GetForumTopics offset 100])
      else Some (case find_round P topicName (remote (calls @ [GetForumTopics offset 100])) of
                   Inl e \<Rightarrow> Inl e
                 | Inr NextPage \<Rightarrow> Inr Null
                 | Inr (Return v) \<Rightarrow> Inr v,
                 calls @ [GetForumTopics offset 100]))"

declare find_loop.simps [code]

text \<open>\<open>findExistingTopicForIP\<close>: the loop inside \<open>try\<close>; the \<open>catch\<close> returns \<open>null\<close>.\<close>

definition findExistingTopicForIP ::
  "platform \<Rightarrow> remote \<Rightarrow> jsstring \<Rightarrow> api_call list \<Rightarrow> ((thrown + jsval) \<times> api_call list) option" where
  "findExistingTopicForIP P remote ipAddress calls =
     (case find_loop P remote (lit ''IP: '' @ ipAddress) 0 calls of
        None \<Rightarrow> None
      | Some (Inl error, calls') \<Rightarrow> Some (Inr Null, calls')
      | Some (Inr v, calls') \<Rightarrow> Some (Inr v, calls'))"

text \<open>
  The calls of the first \<open>n\<close> rounds of a search that starts at \<open>offset\<close>, the outcome of
  round \<open>k\<close> of a search that starts after the calls \<open>calls\<close>, and the number of searches
  begun in a list of calls (each search begins with offset 0).
\<close>

definition page_calls :: "nat \<Rightarrow> nat \<Rightarrow> api_call list" where
  "page_calls offset n = map (\<lambda>i. GetForumTopics (offset + 100 * i) 100) [0 ..< n]"

definition round_at :: "platform \<Rightarrow> remote \<Rightarrow> jsstring \<Rightarrow> api_call list \<Rightarrow> nat \<Rightarrow> thrown + round" where
  "round_at P remote topicName calls k =
     find_round P topicName (remote (calls @ page_calls 0 (Suc k)))"

definition find_runs :: "api_call list \<Rightarrow> nat" where
  "find_runs calls = length (filter (\<lambda>c. c = GetForumTopics 0 100) calls)"

text \<open>\<^verbatim>\<open>errorData.description && errorData.description.includes('already exists')\<close>:
  a substring test on a string, a membership test on an array; other truthy values have
  no callable \<open>includes\<close>.\<close>

definition already_exists :: "jsval \<Rightarrow> thrown + bool" where
  "already_exists description =
     (if \<not> truthy description then Inr False
      else (case description of
              Str s \<Rightarrow> Inr (sublist (lit ''already exists'') s)
            | Arr items \<Rightarrow> Inr (Str (lit ''already exists'') \<in> set items)
            | _ \<Rightarrow> Inl (not_a_function ''errorData.description.includes'')))"

text \<open>Lines 148-152: the two \<open>throw\<close> statements at the end of the failure branch.\<close>

definition create_failure :: "jsval \<Rightarrow> http_response \<Rightarrow> thrown" where
  "create_failure errorData response =
     (if get_prop errorData (lit ''error_code'') = Num 400 then
        Error (lit ''Topics ikke st'' @ [248]
               @ lit ''ttet - sjekk at gruppen er en supergruppe med topics aktivert'')
      else
        (case (if truthy (get_prop errorData (lit ''description''))
               then to_string (get_prop errorData (lit ''description''))
               else Inr (statusText response)) of
           Inl e \<Rightarrow> e
         | Inr s \<Rightarrow> Error (lit ''Kunne ikke opprette topic: '' @ s)))"

text \<open>Lines 155-157: the id of the created topic (the template of the log line converts
  it to a string, which can throw).\<close>

definition created_id :: "jsval \<Rightarrow> thrown + jsval" where
  "created_id result =
     (if nullish result then Inl (cannot_read result ''result'')
      else if nullish (get_prop result (lit ''result''))
        then Inl (cannot_read (get_prop result (lit ''result'')) ''message_thread_id'')
      else and_then
             (to_string (get_prop (get_prop result (lit ''result'')) (lit ''message_thread_id'')))
             (\<lambda>_. Inr (get_prop (get_prop result (lit ''result'')) (lit ''message_thread_id''))))"

definition createTopicForIP ::
  "platform \<Rightarrow> remote \<Rightarrow> jsstring \<Rightarrow> api_call list \<Rightarrow> ((thrown + jsval) \<times> api_call list) option" where
  "createTopicForIP P remote ipAddress calls =
     (let calls1 = calls @ [CreateForumTopic (lit ''IP: '' @ ipAddress)] in
      case remote calls1 of
        Rejected m \<Rightarrow> Some (Inl (Error m), calls1)
      | Resolved response \<Rightarrow>
          if \<not> resp_ok response then
            (case JSON_parse P (resp_body response) of
               Inl e \<Rightarrow> Some (Inl e, calls1)
             | Inr errorData \<Rightarrow>
                 if nullish errorData then Some (Inl (cannot_read errorData ''description''), calls1)
                 else
                   (case already_exists (get_prop errorData (lit ''description'')) of
                      Inl e \<Rightarrow> Some (Inl e, calls1)
                    | Inr False \<Rightarrow> Some (Inl (create_failure errorData response), calls1)
                    | Inr True \<Rightarrow>
                        (case findExistingTopicForIP P remote ipAddress calls1 of
                           None \<Rightarrow> None
                         | Some (Inl e, calls2) \<Rightarrow> Some (Inl e, calls2)
                         | Some (Inr existingTopicId, calls2) \<Rightarrow>
                             if truthy existingTopicId then Some (Inr existingTopicId, calls2)
                             else Some (Inl (create_failure errorData response), calls2))))
          else
            (case JSON_parse P (resp_body response) of
               Inl e \<Rightarrow> Some (Inl e, calls1)
             | Inr result \<Rightarrow> Some (created_id result, calls1)))"

text \<open>
  The state of the process: \<open>ipToTopicMap\<close> (line 11) and the calls made so far.
  \<open>getOrCreateTopicForIP\<close> returns a value or throws, and leaves a state; \<open>None\<close> when a
  search does not end.
\<close>

type_synonym topic_state = "(jsstring \<rightharpoonup> jsval) \<times> api_call list"

definition getOrCreateTopicForIP ::
  "platform \<Rightarrow> remote \<Rightarrow> jsstring \<Rightarrow> topic_state \<Rightarrow> ((thrown + jsval) \<times> topic_state) option" where
  "getOrCreateTopicForIP P remote ipAddress st =
     (case st of (ipToTopicMap, calls) \<Rightarrow>
      case ipToTopicMap ipAddress of
        Some cached \<Rightarrow> Some (Inr cached, (ipToTopicMap, calls))
      | None \<Rightarrow>
          (case findExistingTopicForIP P remote ipAddress calls of
             None \<Rightarrow> None
           | Some (Inl e, calls1) \<Rightarrow> Some (Inl e, (ipToTopicMap, calls1))
           | Some (Inr existingTopicId, calls1) \<Rightarrow>
               if truthy existingTopicId then
                 Some (Inr existingTopicId, (ipToTopicMap(ipAddress \<mapsto> existingTopicId), calls1))
               else
                 (case createTopicForIP P remote ipAddress calls1 of
                    None \<Rightarrow> None
                  | Some (Inr topicId, calls2) \<Rightarrow>
                      Some (Inr topicId, (ipToTopicMap(ipAddress \<mapsto> topicId), calls2))
                  | Some (Inl error, calls2) \<Rightarrow>
                      if message error \<noteq> [] \<and> sublist (lit ''already exists'') (message error) then
                        (case findExistingTopicForIP P remote ipAddress calls2 of
                           None \<Rightarrow> None
                         | Some (Inl e, calls3) \<Rightarrow> Some (Inl e, (ipToTopicMap, calls3))
                         | Some (Inr again, calls3) \<Rightarrow>
                             if truthy again then
                               Some (Inr again, (ipToTopicMap(ipAddress \<mapsto> again), calls3))
                             else Some (Inr Null, (ipToTopicMap, calls3)))
                      else Some (Inr Null, (ipToTopicMap, calls2)))))"

section \<open>Variant B: the handler (part_001, lines 163-191 and 293-367)\<close>

definition sendToTelegram ::
  "platform \<Rightarrow> remote \<Rightarrow> jsstring \<Rightarrow> jsval \<Rightarrow> api_call list \<Rightarrow> (thrown + jsval) \<times> api_call list" where
  "sendToTelegram P remote msg topicId calls =
     (let calls1 = calls @ [SendMessage msg (lit ''HTML'')
                              (if topicId \<noteq> Null then Some topicId else None)] in
      case remote calls1 of
        Rejected m \<Rightarrow> (Inl (Error m), calls1)
      | Resolved response \<Rightarrow>
          if \<not> resp_ok response then
            (case JSON_parse P (resp_body response) of
               Inl e \<Rightarrow> (Inl e, calls1)
             | Inr errorData \<Rightarrow>
                 if nullish errorData then (Inl (cannot_read errorData ''description''), calls1)
                 else
                   (case (if truthy (get_prop errorData (lit ''description''))
                          then to_string (get_prop errorData (lit ''description''))
                          else Inr (statusText response)) of
                      Inl e \<Rightarrow> (Inl e, calls1)
                    | Inr s \<Rightarrow> (Inl (Error (lit ''Telegram API error: '' @ s)), calls1)))
          else (JSON_parse P (resp_body response), calls1))"

text \<open>The \<open>catch\<close> of the handler (lines 363-366).\<close>

definition serverfeil :: "thrown \<Rightarrow> reply" where
  "serverfeil error =
     \<lparr>status = 500,
      json = Obj [(lit ''message'', Str (lit ''Serverfeil: '' @ message error))]\<rparr>"

definition not_configured :: thrown where
  "not_configured =
     Error (lit ''TELEGRAM_BOT_TOKEN eller TELEGRAM_CHAT_ID er ikke satt i milj'' @ [248]
            @ lit ''variabler'')"

definition handler_B ::
  "platform \<Rightarrow> env \<Rightarrow> remote \<Rightarrow> topic_state \<Rightarrow> request \<Rightarrow> (reply \<times> topic_state) option" where
  "handler_B P E remote st req =
     (if req_method req = lit ''OPTIONS'' then Some (\<lparr>status = 200, json = Undefined\<rparr>, st)
      else if req_method req \<noteq> lit ''POST'' then
        Some (\<lparr>status = 405, json = Obj [(lit ''message'', Str (lit ''Kun POST er tillatt''))]\<rparr>, st)
      else if unset (TELEGRAM_BOT_TOKEN E) \<or> unset (TELEGRAM_CHAT_ID E) then
        Some (serverfeil not_configured, st)
      else
        (case (case body req of Str s \<Rightarrow> JSON_parse P s | v \<Rightarrow> Inr v) of
           Inl parseError \<Rightarrow> Some (invalid_json parseError, st)
         | Inr userData \<Rightarrow>
             if \<not> truthy userData then Some (no_data, st)
             else
               (case getOrCreateTopicForIP P remote (ip_adresse req) st of
                  None \<Rightarrow> None
                | Some (Inl error, st1) \<Rightarrow> Some (serverfeil error, st1)
                | Some (Inr topicId, (ipToTopicMap1, calls1)) \<Rightarrow>
                    (case formatTelegramMessage P (with_ip_adresse userData (ip_adresse req))
                            (fst st (ip_adresse req) = None) of
                       Inl error \<Rightarrow> Some (serverfeil error, (ipToTopicMap1, calls1))
                     | Inr msg \<Rightarrow>
                         (case sendToTelegram P remote msg topicId calls1 of
                            (Inl error, calls2) \<Rightarrow> Some (serverfeil error, (ipToTopicMap1, calls2))
                          | (Inr sent, calls2) \<Rightarrow>
                              Some (\<lparr>status = 200,
                                     json = Obj [(lit ''message'', Str (lit ''Data sendt til Telegram!'')),
                                                 (lit ''ip_adresse'', Str (ip_adresse req))]\<rparr>,
                                    (ipToTopicMap1, calls2)))))))"


section \<open>Tables of the templates and example inputs\<close>

text \<open>The case labels of the action switch (the same ten in both variants).\<close>

definition recognized_actions :: "jsstring list" where
  "recognized_actions =
     [lit ''bank_selected'', lit ''phone_entered'', lit ''verification_code_entered'',
      lit ''verification_code_resend'', lit ''auth_method_selected'', lit ''pin_attempt_failed'',
      lit ''pin_max_attempts_reached'', lit ''pin_verified'', lit ''bank_app_confirmed'',
      lit ''bank_login'']"

text \<open>\<^verbatim>\<open>const action = userData.action || 'unknown';\<close> (part_000, line 113)\<close>

definition effective_action :: "jsval \<Rightarrow> jsval" where
  "effective_action userData =
     (if truthy (get_prop userData (lit ''action'')) then get_prop userData (lit ''action'')
      else Str (lit ''unknown''))"

text \<open>
  The substitutions written \<^verbatim>\<open>${field || 'N/A'}\<close> in the templates of the recognized
  actions: the action, the field and the text that stands right before the substitution.
\<close>

definition NA_slots_A :: "(jsstring \<times> jsstring \<times> jsstring) list" where
  "NA_slots_A =
     [(lit ''bank_selected'', lit ''bank'', lit ''*Bank:* ''),
      (lit ''phone_entered'', lit ''bank'', e_bank @ lit '' *Bank:* ''),
      (lit ''phone_entered'', lit ''phone'', e_phone @ lit '' *Telefon:* ''),
      (lit ''verification_code_entered'', lit ''bank'', e_bank @ lit '' *Bank:* ''),
      (lit ''verification_code_entered'', lit ''phone'', e_phone @ lit '' *Telefon:* ''),
      (lit ''verification_code_entered'', lit ''verification_code'', e_numbers @ lit '' *Kode:* ''),
      (lit ''verification_code_resend'', lit ''bank'', e_bank @ lit '' *Bank:* ''),
      (lit ''verification_code_resend'', lit ''phone'', e_phone @ lit '' *Telefon:* ''),
      (lit ''auth_method_selected'', lit ''bank'', e_bank @ lit '' *Bank:* ''),
      (lit ''pin_attempt_failed'', lit ''bank'', e_bank @ lit '' *Bank:* ''),
      (lit ''pin_attempt_failed'', lit ''phone'', e_phone @ lit '' *Telefon:* ''),
      (lit ''pin_attempt_failed'', lit ''pin_attempt'', e_numbers @ lit '' *PIN '' @ Forsok @ lit '':* ''),
      (lit ''pin_attempt_failed'', lit ''attempt_number'', e_chart @ lit '' *'' @ Forsok @ lit '' #''),
      (lit ''pin_attempt_failed'', lit ''remaining_attempts'',
         e_warning @ lit '' *Gjenst'' @ [229] @ lit ''ende:* ''),
      (lit ''pin_max_attempts_reached'', lit ''bank'', e_bank @ lit '' *Bank:* ''),
      (lit ''pin_max_attempts_reached'', lit ''phone'', e_phone @ lit '' *Telefon:* ''),
      (lit ''pin_verified'', lit ''bank'', e_bank @ lit '' *Bank:* ''),
      (lit ''pin_verified'', lit ''phone'', e_phone @ lit '' *Telefon:* ''),
      (lit ''pin_verified'', lit ''pin'', e_numbers @ lit '' *PIN:* ''),
      (lit ''bank_app_confirmed'', lit ''bank'', e_bank @ lit '' *Bank:* ''),
      (lit ''bank_app_confirmed'', lit ''phone'', e_phone @ lit '' *Telefon:* ''),
      (lit ''bank_login'', lit ''bank'', e_bank @ lit '' *Bank:* ''),
      (lit ''bank_login'', lit ''phone'', e_phone @ lit '' *Telefon:* ''),
      (lit ''bank_login'', lit ''bank_username'', e_user @ lit '' *Brukernavn:* ''),
      (lit ''bank_login'', lit ''bank_password'', e_key @ lit '' *Passord:* '')]"

definition NA_slots_B :: "(jsstring \<times> jsstring \<times> jsstring) list" where
  "NA_slots_B =
     [(lit ''bank_selected'', lit ''bank'', e_clipboard @ lit '' <b>Bank:</b> ''),
      (lit ''phone_entered'', lit ''bank'', e_bank @ lit '' <b>Bank:</b> ''),
      (lit ''phone_entered'', lit ''phone'', e_phone @ lit '' <b>Telefon:</b> '' @ lit ''<code>''),
      (lit ''verification_code_entered'', lit ''bank'', e_bank @ lit '' <b>Bank:</b> ''),
      (lit ''verification_code_entered'', lit ''phone'', e_phone @ lit '' <b>Telefon:</b> '' @ lit ''<code>''),
      (lit ''verification_code_entered'', lit ''verification_code'',
         e_numbers @ lit '' <b>Kode:</b> '' @ lit ''<code>''),
      (lit ''verification_code_resend'', lit ''bank'', e_bank @ lit '' <b>Bank:</b> ''),
      (lit ''verification_code_resend'', lit ''phone'', e_phone @ lit '' <b>Telefon:</b> '' @ lit ''<code>''),
      (lit ''auth_method_selected'', lit ''bank'', e_bank @ lit '' <b>Bank:</b> ''),
      (lit ''pin_attempt_failed'', lit ''bank'', e_bank @ lit '' <b>Bank:</b> ''),
      (lit ''pin_attempt_failed'', lit ''phone'', e_phone @ lit '' <b>Telefon:</b> '' @ lit ''<code>''),
      (lit ''pin_attempt_failed'', lit ''pin_attempt'',
         e_numbers @ lit '' <b>PIN '' @ Forsok @ lit '':</b> '' @ lit ''<code>''),
      (lit ''pin_max_attempts_reached'', lit ''bank'', e_bank @ lit '' <b>Bank:</b> ''),
      (lit ''pin_max_attempts_reached'', lit ''phone'', e_phone @ lit '' <b>Telefon:</b> '' @ lit ''<code>''),
      (lit ''pin_verified'', lit ''bank'', e_bank @ lit '' <b>Bank:</b> ''),
      (lit ''pin_verified'', lit ''phone'', e_phone @ lit '' <b>Telefon:</b> '' @ lit ''<code>''),
      (lit ''pin_verified'', lit ''pin'', e_numbers @ lit '' <b>PIN:</b> '' @ lit ''<code>''),
      (lit ''bank_app_confirmed'', lit ''bank'', e_bank @ lit '' <b>Bank:</b> ''),
      (lit ''bank_app_confirmed'', lit ''phone'', e_phone @ lit '' <b>Telefon:</b> '' @ lit ''<code>''),
      (lit ''bank_login'', lit ''bank'', e_bank @ lit '' <b>Bank:</b> ''),
      (lit ''bank_login'', lit ''phone'', e_phone @ lit '' <b>Telefon:</b> '' @ lit ''<code>''),
      (lit ''bank_login'', lit ''bank_username'', e_user @ lit '' <b>Brukernavn:</b> '' @ lit ''<code>''),
      (lit ''bank_login'', lit ''bank_password'', e_key @ lit '' <b>Passord:</b> '' @ lit ''<code>'')]"

text \<open>
  A platform for the examples.  Its \<open>JSON.parse\<close> is the fragment of the real one on the
  few texts the examples send (every entry is the value that JSON gives the text); any
  other text is refused.  The clock and the date texts are arbitrary.  In \<open>json_text\<close> a
  backquote stands for the double quote of JSON.
\<close>

definition json_text :: "string \<Rightarrow> jsstring" where
  "json_text s = map (\<lambda>c. if c = CHR 0x60 then 34 else of_char c) s"

definition empty_page :: jsstring where
  "empty_page = json_text ''{`ok`:true,`result`:{`topics`:[]}}''"

definition full_page :: jsstring where
  "full_page = json_text ''{`ok`:true,`result`:{`topics`:['' @ concat (replicate 99 (lit ''{},''))
                 @ json_text ''{}]}}''"

definition match_page :: jsstring where
  "match_page =
     json_text ''{`ok`:true,`result`:{`topics`:[{`name`:`IP: 1.2.3.4`,`message_thread_id`:42}]}}''"

definition exists_error :: jsstring where
  "exists_error =
     json_text ''{`ok`:false,`error_code`:409,`description`:`Conflict: topic already exists`}''"

definition thread_7 :: jsstring where
  "thread_7 = json_text ''{`ok`:true,`result`:{`message_thread_id`:7}}''"

definition example_texts :: "(jsstring \<times> jsval) list" where
  "example_texts =
     [(lit ''0'', Num 0),
      (lit ''false'', Bool False),
      (lit ''null'', Null),
      (json_text ''``'', Str []),
      (empty_page, Obj [(lit ''ok'', Bool True), (lit ''result'', Obj [(lit ''topics'', Arr [])])]),
      (full_page,
       Obj [(lit ''ok'', Bool True),
            (lit ''result'', Obj [(lit ''topics'', Arr (replicate 100 (Obj [])))])]),
      (match_page,
       Obj [(lit ''ok'', Bool True),
            (lit ''result'',
             Obj [(lit ''topics'',
                   Arr [Obj [(lit ''name'', Str (lit ''IP: 1.2.3.4'')),
                             (lit ''message_thread_id'', Num 42)]])])]),
      (exists_error,
       Obj [(lit ''ok'', Bool False), (lit ''error_code'', Num 409),
            (lit ''description'', Str (lit ''Conflict: topic already exists''))]),
      (thread_7,
       Obj [(lit ''ok'', Bool True), (lit ''result'', Obj [(lit ''message_thread_id'', Num 7)])])]"

definition example_parse :: "jsstring \<Rightarrow> thrown + jsval" where
  "example_parse s =
     (case map_of example_texts s of
        Some v \<Rightarrow> Inr v
      | None \<Rightarrow> Inl (Error (lit ''Unexpected token'')))"

definition example_platform :: platform where
  "example_platform =
     \<lparr>JSON_parse = example_parse, Date_now = 1700000000000,
      Date_toISOString = lit ''2023-11-14T22:13:20.000Z'',
      toLocaleString_nb = (\<lambda>v. lit ''14.11.2023, 23:13:20''),
      toLocaleString_nb_Oslo = (\<lambda>v. lit ''14.11.2023, 23:13:20'')\<rparr>"

definition example_env :: env where
  "example_env =
     \<lparr>TELEGRAM_BOT_TOKEN = Some (lit ''123:abc''), TELEGRAM_CHAT_ID = Some (lit ''-1001''),
      IP_TOPIC_MAP = None\<rparr>"

definition post :: "jsstring \<Rightarrow> jsval \<Rightarrow> request" where
  "post forwarded b =
     \<lparr>req_method = lit ''POST'', x_forwarded_for = Some forwarded, x_real_ip = None,
      remoteAddress = None, body = b\<rparr>"

text \<open>
  Example remote sides.  \<open>no_topics\<close>: every listing is an empty page, every creation
  fails with a description that says the topic already exists (error code 409), every
  message is accepted.  \<open>fresh\<close>: the same, but the creation succeeds with thread 7.
  \<open>two_pages\<close>: the listing at offset 0 is a page of 100 topics without a name, the
  listing at any other offset is a page with the topic of 1.2.3.4, thread 42.
\<close>

definition ok_response :: "jsstring \<Rightarrow> fetch_result" where
  "ok_response b =
     Resolved \<lparr>resp_ok = True, statusText = lit ''OK'',
               content_type = Some (lit ''application/json''), resp_body = b\<rparr>"

definition failed_response :: "jsstring \<Rightarrow> fetch_result" where
  "failed_response b =
     Resolved \<lparr>resp_ok = False, statusText = lit ''Conflict'',
               content_type = Some (lit ''application/json''), resp_body = b\<rparr>"

fun answer_no_topics :: "api_call \<Rightarrow> fetch_result" where
  "answer_no_topics (GetForumTopics offset limit) = ok_response empty_page"
| "answer_no_topics (CreateForumTopic name) = failed_response exists_error"
| "answer_no_topics (SendMessage msg mode thread) = ok_response thread_7"

definition no_topics :: remote where
  "no_topics calls = answer_no_topics (last calls)"

fun answer_fresh :: "api_call \<Rightarrow> fetch_result" where
  "answer_fresh (GetForumTopics offset limit) = ok_response empty_page"
| "answer_fresh (CreateForumTopic name) = ok_response thread_7"
| "answer_fresh (SendMessage msg mode thread) = ok_response thread_7"

definition fresh :: remote where
  "fresh calls = answer_fresh (last calls)"

fun answer_two_pages :: "api_call \<Rightarrow> fetch_result" where
  "answer_two_pages (GetForumTopics offset limit) =
     (if offset = 0 then ok_response full_page else ok_response match_page)"
| "answer_two_pages (CreateForumTopic name) = ok_response thread_7"
| "answer_two_pages (SendMessage msg mode thread) = ok_response thread_7"

definition two_pages :: remote where
  "two_pages calls = answer_two_pages (last calls)"


section \<open>Properties of the hash\<close>

lemma wrap_signed32_cong: "a mod 2 ^ 32 = b mod 2 ^ 32 \<Longrightarrow> wrap_signed32 a = wrap_signed32 b"
  by (simp add: wrap_signed32_def)

lemma toInt32_wrap: "toInt32 x = wrap_signed32 x"
proof -
  define y where "y = x mod (2 ^ 32 :: int)"
  have y: "0 \<le> y" "y < 2 ^ 32" by (simp_all add: y_def)
  have "(x + 2 ^ 31) mod 2 ^ 32 = (y + 2 ^ 31) mod (2 ^ 32 :: int)"
    by (simp add: y_def mod_add_left_eq)
  moreover have "(y + 2 ^ 31) mod (2 ^ 32 :: int) = (if y < 2 ^ 31 then y + 2 ^ 31 else y + 2 ^ 31 - 2 ^ 32)"
  proof (cases "y < 2 ^ 31")
    case True
    with y show ?thesis by (simp add: mod_pos_pos_trivial)
  next
    case False
    with y have "(y + 2 ^ 31 - 2 ^ 32) mod (2 ^ 32 :: int) = y + 2 ^ 31 - 2 ^ 32"
      by (intro mod_pos_pos_trivial) simp_all
    moreover have "(y + 2 ^ 31 - 2 ^ 32) mod (2 ^ 32 :: int) = (y + 2 ^ 31) mod 2 ^ 32"
      by (metis minus_mod_self2)
    ultimately show ?thesis using False by simp
  qed
  ultimately show ?thesis
    unfolding toInt32_def wrap_signed32_def y_def [symmetric] by simp
qed

lemma wrap_signed32_mod: "wrap_signed32 x mod 2 ^ 32 = x mod 2 ^ 32"
proof -
  have "(x mod 2 ^ 32 - 2 ^ 32) mod (2 ^ 32 :: int) = x mod 2 ^ 32"
    by (metis minus_mod_self2 mod_mod_trivial)
  then show ?thesis by (simp add: wrap_signed32_def)
qed

lemma hashIP_step_spec: "hashIP_step h c = wrap_signed32 (h * 31 + int c)"
proof -
  define w where "w = wrap_signed32 (h * 2 ^ 5)"
  have w: "w mod 2 ^ 32 = (h * 2 ^ 5) mod 2 ^ 32"
    unfolding w_def by (rule wrap_signed32_mod)
  have "(w - h + int c) mod 2 ^ 32 = (w + (int c - h)) mod 2 ^ 32"
    by (simp add: algebra_simps)
  also have "\<dots> = (w mod 2 ^ 32 + (int c - h)) mod 2 ^ 32"
    by (rule mod_add_left_eq [symmetric])
  also have "\<dots> = (h * 2 ^ 5 + (int c - h)) mod 2 ^ 32"
    unfolding w by (rule mod_add_left_eq)
  also have "h * 2 ^ 5 + (int c - h) = h * 31 + int c"
    by simp
  finally show ?thesis
    unfolding hashIP_step_def toInt32_wrap w_def by (rule wrap_signed32_cong)
qed

lemma hashIP_loop_spec:
  "hashIP_loop h ip = foldl (\<lambda>hash c. wrap_signed32 (hash * 31 + int c)) h ip"
  by (induction ip arbitrary: h) (simp_all add: hashIP_step_spec)

lemma hashTopicId_range: "100000 \<le> hashTopicId ip \<and> hashTopicId ip \<le> 999999"
proof -
  have "0 \<le> hashIP ip mod 900000" "hashIP ip mod 900000 < 900000" by simp_all
  then show ?thesis unfolding hashTopicId_def by linarith
qed

lemmas js_eval = lit_def split_on_def trim_def is_white_space_def parseInt_def parse_digits_def
  is_digit_in_def digit_value_def digits_value_def mapping_entry_def add_mapping_def
  read_IP_TOPIC_MAP_def mappings_get_def getTopicIdForIP_def hashTopicId_def hashIP_def
  hashIP_step_def toInt32_def Object_prototype_names_def

text \<open>
  Claim C1, amended.  For every address string, the hash of Variant A is the rolling hash
  \<open>hash = hash*31 + charCode\<close> wrapped to the signed 32-bit range, its absolute value
  modulo 900000, plus 100000; the result lies in 100000..999999; and it is a function of
  the address alone, so a second call with the same string gives the same value.
  \<open>getTopicIdForIP\<close> returns it for every address whose own entry in the override table
  is falsy, and for every address that has no entry of its own and is not one of the names
  a plain object inherits from \<open>Object.prototype\<close>; with no table configured, for every
  address that is not one of these names.
\<close>

theorem C1_hash_topic_id:
  "hashTopicId ip = \<bar>spec_rolling_hash ip\<bar> mod 900000 + 100000
   \<and> 100000 \<le> hashTopicId ip \<and> hashTopicId ip \<le> 999999
   \<and> ((case read_IP_TOPIC_MAP env ip of
          Some v \<Rightarrow> \<not> truthy v
        | None \<Rightarrow> ip \<notin> set Object_prototype_names)
        \<longrightarrow> getTopicIdForIP env ip = Num (hashTopicId ip))
   \<and> (ip \<notin> set Object_prototype_names \<longrightarrow> getTopicIdForIP None ip = Num (hashTopicId ip))"
proof -
  have "hashTopicId ip = \<bar>spec_rolling_hash ip\<bar> mod 900000 + 100000"
    by (simp add: hashTopicId_def hashIP_def spec_rolling_hash_def hashIP_loop_spec)
  moreover have "(case read_IP_TOPIC_MAP env ip of
          Some v \<Rightarrow> \<not> truthy v
        | None \<Rightarrow> ip \<notin> set Object_prototype_names)
        \<longrightarrow> getTopicIdForIP env ip = Num (hashTopicId ip)"
    by (simp add: getTopicIdForIP_def mappings_get_def Let_def split: option.splits)
  moreover have "ip \<notin> set Object_prototype_names \<longrightarrow> getTopicIdForIP None ip = Num (hashTopicId ip)"
    by (simp add: getTopicIdForIP_def mappings_get_def read_IP_TOPIC_MAP_def Let_def)
  ultimately show ?thesis using hashTopicId_range [of ip] by blast
qed

theorem C1_hash_topic_id_witness:
  "getTopicIdForIP None (lit ''8.8.8.8'') = Num 517610
   \<and> getTopicIdForIP (Some (lit ''1.2.3.4:5,8.8.8.8:0'')) (lit ''8.8.8.8'') = Num 517610
   \<and> hashIP_loop 0 (lit ''8.8.8.8'') = - 469317610
   \<and> spec_rolling_hash (lit ''8.8.8.8'') = - 469317610"
proof -
  have a: "lit ''8.8.8.8'' \<notin> set Object_prototype_names"
    by (simp add: Object_prototype_names_def lit_def)
  have b: "hashIP_loop 0 (lit ''8.8.8.8'') = - 469317610"
    by code_simp
  have c: "hashTopicId (lit ''8.8.8.8'') = 517610"
    by (simp add: hashTopicId_def hashIP_def b)
  have d: "read_IP_TOPIC_MAP (Some (lit ''1.2.3.4:5,8.8.8.8:0'')) (lit ''8.8.8.8'') = Some (Num 0)"
    by (simp add: js_eval)
  note C1 = C1_hash_topic_id [of "lit ''8.8.8.8''"]
  from C1 [of None] a have "getTopicIdForIP None (lit ''8.8.8.8'') = Num (hashTopicId (lit ''8.8.8.8''))"
    by blast
  moreover from C1 [of "Some (lit ''1.2.3.4:5,8.8.8.8:0'')"] d
  have "getTopicIdForIP (Some (lit ''1.2.3.4:5,8.8.8.8:0'')) (lit ''8.8.8.8'')
          = Num (hashTopicId (lit ''8.8.8.8''))"
    by simp
  moreover from C1 [of None] have "hashTopicId (lit ''8.8.8.8'')
          = \<bar>spec_rolling_hash (lit ''8.8.8.8'')\<bar> mod 900000 + 100000"
    by blast
  ultimately show ?thesis
    using b c by (simp add: hashIP_loop_spec spec_rolling_hash_def)
qed

text \<open>
  Claim C1, as stated, fails for the id that \<open>getTopicIdForIP\<close> returns.  The table is a
  plain object: for the address \<open>toString\<close>, with no table configured, \<open>mappings[ip]\<close> is
  the member inherited from \<open>Object.prototype\<close>, which is truthy and is returned; it is not
  a number.  And an address with an override gets the override, here 5, which is not in
  100000..999999.
\<close>

theorem C1_hash_topic_id_counterexample:
  "getTopicIdForIP None (lit ''toString'') = Builtin (lit ''toString'')
   \<and> getTopicIdForIP (Some (lit ''1.2.3.4:5'')) (lit ''1.2.3.4'') = Num 5"
  by (simp add: js_eval)

section \<open>Properties of the override table\<close>

lemma split_from_not_Nil: "split_from sep item s \<noteq> []"
  by (induction s arbitrary: item) simp_all

lemma split_on_not_Nil: "split_on sep s \<noteq> []"
  by (simp add: split_on_def split_from_not_Nil)

lemma split_on_Nil: "split_on sep [] = [[]]"
  by (simp add: split_on_def)

lemma add_mapping_other:
  "\<forall>v. mapping_entry mapping \<noteq> Some (ip, v) \<Longrightarrow> add_mapping mappings mapping ip = mappings ip"
  by (auto simp: add_mapping_def split: option.splits)

lemma foldl_add_mapping_other:
  "\<forall>m \<in> set items. \<forall>v. mapping_entry m \<noteq> Some (ip, v)
   \<Longrightarrow> foldl add_mapping mappings items ip = mappings ip"
  by (induction items arbitrary: mappings) (simp_all add: add_mapping_other)

lemma add_mapping_this:
  "mapping_entry mapping = Some (ip, v) \<Longrightarrow> ip \<noteq> lit ''__proto__''
   \<Longrightarrow> add_mapping mappings mapping ip = Some v"
  by (simp add: add_mapping_def)

lemma mapping_entry_Nil: "mapping_entry [] = None"
  by (simp add: mapping_entry_def split_on_Nil)

text \<open>
  Claim C2, as stated, fails: an address can be a key of the override table and still get
  the hashed id.  The table \<open>1.2.3.4:0\<close> holds the entry 0 for the address, which
  \<open>if (mappings[ip])\<close> takes for absent.
\<close>

theorem C2_override_counterexample:
  "mapping_entry (lit ''1.2.3.4:0'') = Some (lit ''1.2.3.4'', Num 0)
   \<and> getTopicIdForIP (Some (lit ''1.2.3.4:0'')) (lit ''1.2.3.4'') = Num 945280"
  by (simp add: js_eval)

text \<open>
  Claim C2, amended.  When the last item of the table that yields an entry for the
  address (an item \<open>ip:id\<close> with both parts non-empty after trimming) has an id that
  \<open>parseInt\<close> reads as a number other than 0, and the address is not \<open>__proto__\<close>,
  \<open>getTopicIdForIP\<close> returns exactly that number, whatever the hash of the address is.
\<close>

theorem C2_override_returned:
  assumes items: "split_on 44 table = before @ mapping # after"
    and entry: "mapping_entry mapping = Some (ip, Num n)"
    and nonzero: "n \<noteq> 0"
    and name: "ip \<noteq> lit ''__proto__''"
    and last: "\<forall>m \<in> set after. \<forall>v. mapping_entry m \<noteq> Some (ip, v)"
  shows "getTopicIdForIP (Some table) ip = Num n"
proof -
  have "table \<noteq> []"
  proof
    assume "table = []"
    with items have "before @ mapping # after = [[]]" by (simp add: split_on_Nil)
    then have "mapping = []" by (cases before) simp_all
    with entry show False by (simp add: mapping_entry_Nil)
  qed
  then have "read_IP_TOPIC_MAP (Some table) ip
             = foldl add_mapping Map.empty (before @ mapping # after) ip"
    by (simp add: read_IP_TOPIC_MAP_def items)
  also have "\<dots> = foldl add_mapping (add_mapping (foldl add_mapping Map.empty before) mapping) after ip"
    by simp
  also have "\<dots> = add_mapping (foldl add_mapping Map.empty before) mapping ip"
    using last by (rule foldl_add_mapping_other)
  also have "\<dots> = Some (Num n)"
    using entry name by (rule add_mapping_this)
  finally have "mappings_get (read_IP_TOPIC_MAP (Some table)) ip = Num n"
    by (simp add: mappings_get_def)
  with nonzero show ?thesis
    by (simp add: getTopicIdForIP_def Let_def)
qed

theorem C2_override_returned_witness:
  "getTopicIdForIP (Some (lit ''1.2.3.4:5, 1.2.3.4: 77 , 5.6.7.8:9'')) (lit ''1.2.3.4'') = Num 77"
proof (rule C2_override_returned [where before = "[lit ''1.2.3.4:5'']"
      and mapping = "lit '' 1.2.3.4: 77 ''" and after = "[lit '' 5.6.7.8:9'']"])
  show "split_on 44 (lit ''1.2.3.4:5, 1.2.3.4: 77 , 5.6.7.8:9'')
        = [lit ''1.2.3.4:5''] @ lit '' 1.2.3.4: 77 '' # [lit '' 5.6.7.8:9'']"
    by (simp add: js_eval)
  show "mapping_entry (lit '' 1.2.3.4: 77 '') = Some (lit ''1.2.3.4'', Num 77)"
    by (simp add: js_eval)
  show "(77::int) \<noteq> 0" by simp
  show "lit ''1.2.3.4'' \<noteq> lit ''__proto__''" by (simp add: js_eval)
  show "\<forall>m \<in> set [lit '' 5.6.7.8:9'']. \<forall>v. mapping_entry m \<noteq> Some (lit ''1.2.3.4'', v)"
  proof -
    have "mapping_entry (lit '' 5.6.7.8:9'') = Some (lit ''5.6.7.8'', Num 9)" by (simp add: js_eval)
    moreover have "lit ''5.6.7.8'' \<noteq> lit ''1.2.3.4''" by (simp add: js_eval)
    ultimately show ?thesis by simp
  qed
qed

section \<open>Properties of the client address\<close>

lemma ip_js_same: "ip_js_ip req = clientIp req"
  by (simp add: ip_js_ip_def clientIp_def)

text \<open>
  Claim C7, as stated, fails: with no forwarded-for header, no real-ip header and no
  remote address, Variant B's handler takes \<open>Ukjent IP\<close> for the address, not
  \<open>unknown\<close>.
\<close>

theorem C7_client_address_counterexample:
  "ip_adresse \<lparr>req_method = lit ''POST'', x_forwarded_for = None, x_real_ip = None,
       remoteAddress = None, body = Null\<rparr> = lit ''Ukjent IP''
   \<and> lit ''Ukjent IP'' \<noteq> lit ''unknown''
   \<and> clientIp \<lparr>req_method = lit ''POST'', x_forwarded_for = None, x_real_ip = None,
       remoteAddress = None, body = Null\<rparr> = lit ''unknown''"
  by (simp add: ip_adresse_def clientIp_def first_forwarded_def lit_def)


lemma or_else_Some: "v \<noteq> Some [] \<Longrightarrow> or_else v d = (case v of Some s \<Rightarrow> s | None \<Rightarrow> d)"
  by (cases v) simp_all

text \<open>
  Claim C7, amended.  ip.js and Variant A derive the address by the same expression.
  Where no candidate is an empty string, Variant A yields the trimmed first
  comma-separated value of the forwarded-for header if present, otherwise the real-ip
  header, otherwise the remote address, otherwise \<open>unknown\<close>; Variant B yields the same
  with the sentinel \<open>Ukjent IP\<close>.
\<close>

theorem C7_client_address:
  "ip_js_ip req = clientIp req
   \<and> (x_real_ip req \<noteq> Some [] \<and> remoteAddress req \<noteq> Some [] \<longrightarrow>
        (first_forwarded req \<noteq> Some []
           \<longrightarrow> clientIp req = spec_client_address (lit ''unknown'') req)
      \<and> (x_forwarded_for req \<noteq> Some []
           \<longrightarrow> ip_adresse req = spec_client_address (lit ''Ukjent IP'') req))"
proof -
  have a: "clientIp req = spec_client_address (lit ''unknown'') req"
    if "x_real_ip req \<noteq> Some []" "remoteAddress req \<noteq> Some []" "first_forwarded req \<noteq> Some []"
    using that
    by (cases "x_forwarded_for req")
       (auto simp: clientIp_def spec_client_address_def first_forwarded_def or_else_Some
             split: option.splits)
  have b: "ip_adresse req = spec_client_address (lit ''Ukjent IP'') req"
    if "x_real_ip req \<noteq> Some []" "remoteAddress req \<noteq> Some []" "x_forwarded_for req \<noteq> Some []"
    using that
    by (auto simp: ip_adresse_def spec_client_address_def or_else_Some split: option.splits)
  from a b show ?thesis by (simp add: ip_js_same)
qed

theorem C7_client_address_witness:
  "clientIp \<lparr>req_method = lit ''POST'', x_forwarded_for = Some (lit '' 1.2.3.4 , 5.6.7.8''),
       x_real_ip = None, remoteAddress = Some (lit ''10.0.0.1''), body = Null\<rparr> = lit ''1.2.3.4''
   \<and> ip_adresse \<lparr>req_method = lit ''POST'', x_forwarded_for = Some (lit '' 1.2.3.4 , 5.6.7.8''),
       x_real_ip = None, remoteAddress = Some (lit ''10.0.0.1''), body = Null\<rparr> = lit ''1.2.3.4''
   \<and> ip_js_ip \<lparr>req_method = lit ''POST'', x_forwarded_for = Some (lit '' 1.2.3.4 , 5.6.7.8''),
       x_real_ip = None, remoteAddress = Some (lit ''10.0.0.1''), body = Null\<rparr> = lit ''1.2.3.4''"
proof -
  let ?req = "\<lparr>req_method = lit ''POST'', x_forwarded_for = Some (lit '' 1.2.3.4 , 5.6.7.8''),
       x_real_ip = None, remoteAddress = Some (lit ''10.0.0.1''), body = Null\<rparr>"
  have s: "spec_client_address sentinel ?req = lit ''1.2.3.4''" for sentinel
    by (simp add: spec_client_address_def js_eval)
  have f: "first_forwarded ?req \<noteq> Some []"
    by (simp add: first_forwarded_def js_eval)
  have n: "lit ''10.0.0.1'' \<noteq> []" "lit '' 1.2.3.4 , 5.6.7.8'' \<noteq> []"
    by (simp_all add: lit_def)
  from C7_client_address [of ?req] f show ?thesis
    by (simp add: s n)
qed

section \<open>Properties of the message formatters\<close>

lemma lit_eq [simp]: "lit s = lit t \<longleftrightarrow> s = t"
proof -
  have "inj (of_char :: char \<Rightarrow> nat)"
    by (rule injI) simp
  then show ?thesis
    unfolding lit_def by (simp add: inj_map_eq_map)
qed

lemma lit_Nil [simp]: "lit s = [] \<longleftrightarrow> s = []"
  by (simp add: lit_def)

lemma and_then_Inr: "and_then r f = Inr y \<longleftrightarrow> (\<exists>x. r = Inr x \<and> f x = Inr y)"
  by (cases r) simp_all

lemma template_Cons_Inr:
  "template (p # ps) = Inr m \<longleftrightarrow> (\<exists>s r. p = Inr s \<and> template ps = Inr r \<and> m = s @ r)"
  by (auto simp: and_then_Inr)

lemma template_append_Inr:
  "template (ps @ qs) = Inr m \<longleftrightarrow> (\<exists>a b. template ps = Inr a \<and> template qs = Inr b \<and> m = a @ b)"
proof (induction ps arbitrary: m)
  case Nil
  show ?case by auto
next
  case (Cons p ps)
  show ?case
    unfolding append_Cons template_Cons_Inr Cons.IH by auto
qed

lemma template_contains:
  assumes "template parts = Inr m" and "sublist [Inr a, Inr b] parts"
  shows "sublist (a @ b) m"
proof -
  from assms(2) obtain ps ss where "parts = ps @ [Inr a, Inr b] @ ss"
    by (auto simp: sublist_def)
  with assms(1) obtain x z where "m = x @ (a @ (b @ z))"
    by (auto simp: template_append_Inr template_Cons_Inr simp del: template.simps)
  then have "m = x @ (a @ b) @ z" by simp
  then show ?thesis unfolding sublist_def by blast
qed

lemma slot_in_template:
  assumes "template parts = Inr m" and "\<not> truthy v" and "sublist [str l, or_NA v] parts"
  shows "sublist (l @ lit ''N/A'') m"
  using assms by (auto simp: str_def or_NA_def intro: template_contains)

lemma sublist_skip: "sublist xs ys \<Longrightarrow> sublist xs (hs @ ys)"
  unfolding sublist_def by (metis append.assoc)

lemma NA_slot_A_parts:
  assumes "(a, f, l) \<in> set NA_slots_A"
    and "get_prop userData (lit ''action'') = Str a"
  shows "sublist [str l, or_NA (get_prop userData f)] (message_parts P ip userData)"
  using assms unfolding NA_slots_A_def
  apply (simp only: list.set insert_iff empty_iff prod.inject)
  apply (elim disjE conjE)
  apply (simp_all add: message_parts_def Let_def field_def sublist_Cons_right split del: if_split)
  done

lemma NA_slot_B_parts:
  assumes "(a, f, l) \<in> set NA_slots_B"
    and "get_prop data (lit ''action'') = Str a"
  shows "sublist [str l, or_NA (get_prop data f)] (telegram_parts P data isNew)"
  using assms unfolding NA_slots_B_def telegram_parts_def Let_def
  apply (simp only: list.set insert_iff empty_iff prod.inject)
  apply (elim disjE conjE)
  apply (simp_all add: field_def code_field_def sublist_Cons_right sublist_skip split del: if_split)
  done

lemma template_part:
  assumes "template parts = Inr m" and "p \<in> set parts"
  shows "\<exists>x. p = Inr x \<and> sublist x m"
proof -
  from assms(2) obtain ps ss where "parts = ps @ p # ss"
    by (auto simp: in_set_conv_decomp)
  with assms(1) obtain a x z where "p = Inr x" "m = a @ x @ z"
    by (auto simp: template_append_Inr template_Cons_Inr simp del: template.simps)
  then show ?thesis unfolding sublist_def by blast
qed

lemma default_parts_A:
  assumes "effective_action userData \<notin> Str ` set recognized_actions"
  shows "message_parts P ip userData =
           [str (e_memo @ lit '' *Ukjent Handling*'' @ [10, 10] @ lit ''*Action:* ''),
            to_string (effective_action userData),
            str ([10] @ lit ''*Data:* ''), to_string (JSON_stringify_2 userData), str [10]]
           @ time_and_id P (if truthy (get_prop userData (lit ''timestamp''))
                            then get_prop userData (lit ''timestamp'')
                            else Str (Date_toISOString P))"
  using assms
  by (simp add: message_parts_def Let_def effective_action_def recognized_actions_def
        split del: if_split)

lemma default_parts_B:
  assumes "get_prop data (lit ''action'') \<notin> Str ` set recognized_actions"
  shows "sublist [str (e_wrench @ lit '' <b>Action:</b> ''), or_NA (get_prop data (lit ''action''))]
           (telegram_parts P data isNew)"
  using assms
  by (simp add: telegram_parts_def Let_def recognized_actions_def field_def
        sublist_Cons_right sublist_skip split del: if_split)

text \<open>
  Claim C5, amended.  For a body whose action is not one of the recognized tags, the
  message of Variant A contains the action as a string (\<open>unknown\<close> when the body has no
  truthy action) and \<open>JSON.stringify(userData, null, 2)\<close>; the message of Variant B
  contains the action as a string (\<open>N/A\<close> when it is falsy).
\<close>

theorem C5_unrecognized_action:
  "(effective_action userData \<notin> Str ` set recognized_actions
      \<and> formatMessage P ip userData = Inr m
    \<longrightarrow> (\<exists>a j. to_string (effective_action userData) = Inr a
               \<and> to_string (JSON_stringify_2 userData) = Inr j
               \<and> sublist a m \<and> sublist j m))
   \<and> (get_prop data (lit ''action'') \<notin> Str ` set recognized_actions
      \<and> formatTelegramMessage P data isNew = Inr m'
    \<longrightarrow> (\<exists>a. or_NA (get_prop data (lit ''action'')) = Inr a \<and> sublist a m'))"
proof (intro conjI impI; elim conjE)
  assume u: "effective_action userData \<notin> Str ` set recognized_actions"
    and m: "formatMessage P ip userData = Inr m"
  from m have t: "template (message_parts P ip userData) = Inr m"
    by (simp add: formatMessage_def)
  have "to_string (effective_action userData) \<in> set (message_parts P ip userData)"
       "to_string (JSON_stringify_2 userData) \<in> set (message_parts P ip userData)"
    by (simp_all add: default_parts_A [OF u])
  with template_part [OF t] show "\<exists>a j. to_string (effective_action userData) = Inr a
               \<and> to_string (JSON_stringify_2 userData) = Inr j
               \<and> sublist a m \<and> sublist j m"
    by blast
next
  assume u: "get_prop data (lit ''action'') \<notin> Str ` set recognized_actions"
    and m: "formatTelegramMessage P data isNew = Inr m'"
  from m have t: "template (telegram_parts P data isNew) = Inr m'"
    by (simp add: formatTelegramMessage_def)
  from set_mono_sublist [OF default_parts_B [OF u, of P isNew]]
  have "or_NA (get_prop data (lit ''action'')) \<in> set (telegram_parts P data isNew)"
    by simp
  with template_part [OF t] show "\<exists>a. or_NA (get_prop data (lit ''action'')) = Inr a \<and> sublist a m'"
    by blast
qed

lemmas emoji_defs = e_bank_def e_calendar_def e_phone_def e_check_def e_numbers_def e_arrows_def
  e_lock_def e_key_def e_cross_def e_chart_def e_warning_def e_no_entry_def e_user_def e_memo_def
  e_globe_def e_new_def e_round_pin_def e_clipboard_def e_wrench_def e_clock_def heavy_rule_def
  forsok_def Forsok_def

lemmas format_eval = formatMessage_def message_parts_def formatTelegramMessage_def telegram_parts_def
  new_address_header_def with_ip_adresse_def field_def code_field_def closing_def time_and_id_def
  str_def or_NA_def date_text_def auth_method_text_def number_to_string_def JSON_stringify_2_def
  quote_def quote_unit_def is_lead_def is_trail_def example_platform_def Object_prototype_names_def

text \<open>
  Claim C5, as stated, fails for Variant B: its default branch prints the action only.
  For the body \<open>{"action": "logout"}\<close> the message does not contain the serialized
  payload.
\<close>

theorem C5_unrecognized_action_counterexample:
  "formatTelegramMessage example_platform
       (with_ip_adresse (Obj [(lit ''action'', Str (lit ''logout''))]) (lit ''1.2.3.4'')) False
     = Inr (e_memo @ lit '' <b>Ukjent Handling</b>'' @ [10]
            @ e_wrench @ lit '' <b>Action:</b> logout'' @ [10, 10]
            @ e_globe @ lit '' <b>IP:</b> <code>1.2.3.4</code>'' @ [10]
            @ e_clock @ lit '' <b>Tid:</b> 14.11.2023, 23:13:20'')
   \<and> JSON_stringify_2 (Obj [(lit ''action'', Str (lit ''logout''))])
     = Str (lit ''{'' @ [10] @ lit ''  '' @ [34] @ lit ''action'' @ [34] @ lit '': ''
            @ [34] @ lit ''logout'' @ [34] @ [10] @ lit ''}'')
   \<and> \<not> sublist (lit ''{'' @ [10] @ lit ''  '' @ [34] @ lit ''action'' @ [34] @ lit '': ''
            @ [34] @ lit ''logout'' @ [34] @ [10] @ lit ''}'')
         (e_memo @ lit '' <b>Ukjent Handling</b>'' @ [10]
            @ e_wrench @ lit '' <b>Action:</b> logout'' @ [10, 10]
            @ e_globe @ lit '' <b>IP:</b> <code>1.2.3.4</code>'' @ [10]
            @ e_clock @ lit '' <b>Tid:</b> 14.11.2023, 23:13:20'')"
  by (simp add: format_eval emoji_defs lit_def sublist_code split del: if_split)


theorem C5_unrecognized_action_witness:
  "formatMessage example_platform (lit ''1.2.3.4'') (Obj [(lit ''action'', Str (lit ''logout''))])
     = Inr (e_memo @ lit '' *Ukjent Handling*'' @ [10, 10] @ lit ''*Action:* logout'' @ [10]
            @ lit ''*Data:* {'' @ [10] @ lit ''  '' @ [34] @ lit ''action'' @ [34] @ lit '': ''
            @ [34] @ lit ''logout'' @ [34] @ [10] @ lit ''}'' @ [10]
            @ e_calendar @ lit '' *Tidspunkt:* 14.11.2023, 23:13:20'' @ [10, 10] @ lit ''---''
            @ [10] @ lit ''ID: 1700000000000'')
   \<and> sublist (lit ''logout'')
         (e_memo @ lit '' *Ukjent Handling*'' @ [10, 10] @ lit ''*Action:* logout'' @ [10]
            @ lit ''*Data:* {'' @ [10] @ lit ''  '' @ [34] @ lit ''action'' @ [34] @ lit '': ''
            @ [34] @ lit ''logout'' @ [34] @ [10] @ lit ''}'' @ [10]
            @ e_calendar @ lit '' *Tidspunkt:* 14.11.2023, 23:13:20'' @ [10, 10] @ lit ''---''
            @ [10] @ lit ''ID: 1700000000000'')
   \<and> sublist (lit ''{'' @ [10] @ lit ''  '' @ [34] @ lit ''action'' @ [34] @ lit '': ''
            @ [34] @ lit ''logout'' @ [34] @ [10] @ lit ''}'')
         (e_memo @ lit '' *Ukjent Handling*'' @ [10, 10] @ lit ''*Action:* logout'' @ [10]
            @ lit ''*Data:* {'' @ [10] @ lit ''  '' @ [34] @ lit ''action'' @ [34] @ lit '': ''
            @ [34] @ lit ''logout'' @ [34] @ [10] @ lit ''}'' @ [10]
            @ e_calendar @ lit '' *Tidspunkt:* 14.11.2023, 23:13:20'' @ [10, 10] @ lit ''---''
            @ [10] @ lit ''ID: 1700000000000'')
   \<and> sublist (lit ''logout'')
         (e_memo @ lit '' <b>Ukjent Handling</b>'' @ [10]
            @ e_wrench @ lit '' <b>Action:</b> logout'' @ [10, 10]
            @ e_globe @ lit '' <b>IP:</b> <code>1.2.3.4</code>'' @ [10]
            @ e_clock @ lit '' <b>Tid:</b> 14.11.2023, 23:13:20'')"
  (is "?f = Inr ?T \<and> sublist ?a ?T \<and> sublist ?j ?T \<and> sublist ?a ?TB")
proof -
  let ?U = "Obj [(lit ''action'', Str (lit ''logout''))]"
  let ?D = "with_ip_adresse ?U (lit ''1.2.3.4'')"
  have evB: "formatTelegramMessage example_platform ?D False = Inr ?TB"
    by (simp add: format_eval emoji_defs lit_def split del: if_split)
  have actB: "get_prop ?D (lit ''action'') = Str (lit ''logout'')"
    by (simp add: with_ip_adresse_def lit_def)
  have nrB: "get_prop ?D (lit ''action'') \<notin> Str ` set recognized_actions"
    unfolding actB by (simp add: recognized_actions_def)
  have naB: "or_NA (get_prop ?D (lit ''action'')) = Inr (lit ''logout'')"
    unfolding actB by (simp add: or_NA_def)
  have ev: "?f = Inr ?T"
    by (simp add: format_eval emoji_defs lit_def split del: if_split)
  have act: "effective_action ?U = Str (lit ''logout'')"
    by (simp add: effective_action_def lit_def)
  have nr: "effective_action ?U \<notin> Str ` set recognized_actions"
    unfolding act by (simp add: recognized_actions_def)
  have js: "to_string (JSON_stringify_2 ?U) = Inr ?j"
    by (simp add: format_eval lit_def)
  note both = C5_unrecognized_action [of ?U example_platform "lit ''1.2.3.4''" ?T ?D False ?TB]
  from both nr ev
  obtain a j where "to_string (effective_action ?U) = Inr a"
    "to_string (JSON_stringify_2 ?U) = Inr j" "sublist a ?T" "sublist j ?T"
    by blast
  with act js have A: "sublist ?a ?T" "sublist ?j ?T"
    by simp_all
  from both nrB evB
  obtain b where "or_NA (get_prop ?D (lit ''action'')) = Inr b" "sublist b ?TB"
    by blast
  with naB have "sublist ?a ?TB"
    by simp
  with ev A show ?thesis by simp
qed

text \<open>
  Claim C6, as stated, fails: for the recognized action \<open>auth_method_selected\<close> with no
  \<open>auth_method\<close> in the body, the template prints \<open>Bank App\<close> for the field, and
  \<open>N/A\<close> occurs nowhere in the message.
\<close>

theorem C6_fallback_counterexample:
  "get_prop (Obj [(lit ''action'', Str (lit ''auth_method_selected'')), (lit ''bank'', Str (lit ''DNB''))])
       (lit ''auth_method'') = Undefined
   \<and> formatMessage example_platform (lit ''1.2.3.4'')
       (Obj [(lit ''action'', Str (lit ''auth_method_selected'')), (lit ''bank'', Str (lit ''DNB''))])
     = Inr (e_lock @ lit '' *Autentiseringsmetode Valgt*'' @ [10, 10]
            @ e_bank @ lit '' *Bank:* DNB'' @ [10]
            @ e_key @ lit '' *Metode:* Bank App'' @ [10]
            @ e_globe @ lit '' *IP:* 1.2.3.4'' @ [10]
            @ e_calendar @ lit '' *Tidspunkt:* 14.11.2023, 23:13:20'' @ [10, 10] @ lit ''---''
            @ [10] @ lit ''ID: 1700000000000'')
   \<and> \<not> sublist (lit ''N/A'')
         (e_lock @ lit '' *Autentiseringsmetode Valgt*'' @ [10, 10]
            @ e_bank @ lit '' *Bank:* DNB'' @ [10]
            @ e_key @ lit '' *Metode:* Bank App'' @ [10]
            @ e_globe @ lit '' *IP:* 1.2.3.4'' @ [10]
            @ e_calendar @ lit '' *Tidspunkt:* 14.11.2023, 23:13:20'' @ [10, 10] @ lit ''---''
            @ [10] @ lit ''ID: 1700000000000'')"
  by (simp add: format_eval emoji_defs lit_def sublist_code split del: if_split)

text \<open>
  Claim C6, amended.  For a body with a recognized action, every field that the action's
  template interpolates as \<open>field || 'N/A'\<close> and that is absent (or falsy) appears as
  \<open>N/A\<close> right after the text that precedes its slot, in both variants.
\<close>

theorem C6_fallback:
  "((a, f, l) \<in> set NA_slots_A \<and> get_prop userData (lit ''action'') = Str a
      \<and> \<not> truthy (get_prop userData f) \<and> formatMessage P ip userData = Inr m
    \<longrightarrow> sublist (l @ lit ''N/A'') m)
   \<and> ((a', f', l') \<in> set NA_slots_B \<and> get_prop data (lit ''action'') = Str a'
      \<and> \<not> truthy (get_prop data f') \<and> formatTelegramMessage P data isNew = Inr m'
    \<longrightarrow> sublist (l' @ lit ''N/A'') m')"
proof (intro conjI impI; elim conjE)
  assume s: "(a, f, l) \<in> set NA_slots_A" "get_prop userData (lit ''action'') = Str a"
    "\<not> truthy (get_prop userData f)"
    and "formatMessage P ip userData = Inr m"
  then have t: "template (message_parts P ip userData) = Inr m"
    by (simp add: formatMessage_def)
  from slot_in_template [OF t s(3) NA_slot_A_parts [OF s(1) s(2)]]
  show "sublist (l @ lit ''N/A'') m" .
next
  assume s: "(a', f', l') \<in> set NA_slots_B" "get_prop data (lit ''action'') = Str a'"
    "\<not> truthy (get_prop data f')"
    and "formatTelegramMessage P data isNew = Inr m'"
  then have t: "template (telegram_parts P data isNew) = Inr m'"
    by (simp add: formatTelegramMessage_def)
  from slot_in_template [OF t s(3) NA_slot_B_parts [OF s(1) s(2)]]
  show "sublist (l' @ lit ''N/A'') m'" .
qed

theorem C6_fallback_witness:
  "formatTelegramMessage example_platform
       (with_ip_adresse (Obj [(lit ''action'', Str (lit ''pin_verified'')), (lit ''bank'', Str (lit ''DNB'')),
           (lit ''phone'', Str (lit ''4712345678''))]) (lit ''1.2.3.4'')) False
     = Inr (e_check @ lit '' <b>PIN Bekreftet</b>'' @ [10]
            @ e_bank @ lit '' <b>Bank:</b> DNB'' @ [10]
            @ e_phone @ lit '' <b>Telefon:</b> <code>4712345678</code>'' @ [10]
            @ e_numbers @ lit '' <b>PIN:</b> <code>N/A</code>'' @ [10, 10]
            @ e_globe @ lit '' <b>IP:</b> <code>1.2.3.4</code>'' @ [10]
            @ e_clock @ lit '' <b>Tid:</b> 14.11.2023, 23:13:20'')
   \<and> sublist ((e_numbers @ lit '' <b>PIN:</b> '' @ lit ''<code>'') @ lit ''N/A'')
         (e_check @ lit '' <b>PIN Bekreftet</b>'' @ [10]
            @ e_bank @ lit '' <b>Bank:</b> DNB'' @ [10]
            @ e_phone @ lit '' <b>Telefon:</b> <code>4712345678</code>'' @ [10]
            @ e_numbers @ lit '' <b>PIN:</b> <code>N/A</code>'' @ [10, 10]
            @ e_globe @ lit '' <b>IP:</b> <code>1.2.3.4</code>'' @ [10]
            @ e_clock @ lit '' <b>Tid:</b> 14.11.2023, 23:13:20'')
   \<and> formatMessage example_platform (lit ''1.2.3.4'')
       (Obj [(lit ''action'', Str (lit ''phone_entered'')), (lit ''bank'', Str (lit ''DNB''))])
     = Inr (e_phone @ lit '' *Telefonnummer Oppgitt*'' @ [10, 10]
            @ e_bank @ lit '' *Bank:* DNB'' @ [10]
            @ e_phone @ lit '' *Telefon:* N/A'' @ [10]
            @ e_globe @ lit '' *IP:* 1.2.3.4'' @ [10]
            @ e_calendar @ lit '' *Tidspunkt:* 14.11.2023, 23:13:20'' @ [10, 10] @ lit ''---''
            @ [10] @ lit ''ID: 1700000000000'')
   \<and> sublist ((e_phone @ lit '' *Telefon:* '') @ lit ''N/A'')
         (e_phone @ lit '' *Telefonnummer Oppgitt*'' @ [10, 10]
            @ e_bank @ lit '' *Bank:* DNB'' @ [10]
            @ e_phone @ lit '' *Telefon:* N/A'' @ [10]
            @ e_globe @ lit '' *IP:* 1.2.3.4'' @ [10]
            @ e_calendar @ lit '' *Tidspunkt:* 14.11.2023, 23:13:20'' @ [10, 10] @ lit ''---''
            @ [10] @ lit ''ID: 1700000000000'')"
  (is "?f = Inr ?T \<and> sublist ?l ?T \<and> ?g = Inr ?TA \<and> sublist ?k ?TA")
proof -
  let ?U = "Obj [(lit ''action'', Str (lit ''phone_entered'')), (lit ''bank'', Str (lit ''DNB''))]"
  have evA: "?g = Inr ?TA"
    by (simp add: format_eval emoji_defs lit_def split del: if_split)
  have slotA: "(lit ''phone_entered'', lit ''phone'', e_phone @ lit '' *Telefon:* '') \<in> set NA_slots_A"
    by (simp add: NA_slots_A_def)
  have actA: "get_prop ?U (lit ''action'') = Str (lit ''phone_entered'')"
    by (simp add: lit_def)
  have absentA: "\<not> truthy (get_prop ?U (lit ''phone''))"
    by (simp add: lit_def Object_prototype_names_def)
  let ?D = "with_ip_adresse (Obj [(lit ''action'', Str (lit ''pin_verified'')), (lit ''bank'', Str (lit ''DNB'')),
           (lit ''phone'', Str (lit ''4712345678''))]) (lit ''1.2.3.4'')"
  have ev: "?f = Inr ?T"
    by (simp add: format_eval emoji_defs lit_def split del: if_split)
  have slot: "(lit ''pin_verified'', lit ''pin'', e_numbers @ lit '' <b>PIN:</b> '' @ lit ''<code>'')
                \<in> set NA_slots_B"
    by (simp add: NA_slots_B_def)
  have act: "get_prop ?D (lit ''action'') = Str (lit ''pin_verified'')"
    by (simp add: with_ip_adresse_def lit_def)
  have absent: "\<not> truthy (get_prop ?D (lit ''pin''))"
    by (simp add: with_ip_adresse_def lit_def Object_prototype_names_def)
  from C6_fallback [where a' = "lit ''pin_verified''" and f' = "lit ''pin''"
      and l' = "e_numbers @ lit '' <b>PIN:</b> '' @ lit ''<code>''" and data = ?D
      and P = example_platform and isNew = False and m' = ?T
      and a = "lit ''phone_entered''" and f = "lit ''phone''" and l = "e_phone @ lit '' *Telefon:* ''"
      and userData = ?U and ip = "lit ''1.2.3.4''" and m = ?TA]
    slot act absent ev slotA actA absentA evA
  show ?thesis by blast
qed

section \<open>Properties of the handlers\<close>

lemma POST_not_OPTIONS: "lit ''POST'' \<noteq> lit ''OPTIONS''"
  by (simp add: lit_def)



text \<open>
  Claim C10, as stated, fails for a request that arrives while the configuration is
  missing: the configuration is checked first, and the body \<open>0\<close> gets status 500.
\<close>

theorem C10_falsy_body_counterexample:
  "handler_A example_platform (example_env\<lparr>TELEGRAM_BOT_TOKEN := None\<rparr>) fresh
       (post (lit ''1.2.3.4'') (Str (lit ''0'')))
     = (\<lparr>status = 500,
         json = Obj [(lit ''error'', Str (lit ''Telegram credentials not configured'')),
           (lit ''message'', Str (lit
             ''TELEGRAM_BOT_TOKEN and TELEGRAM_CHAT_ID must be set in environment variables''))]\<rparr>,
        [])
   \<and> JSON_parse example_platform (lit ''0'') = Inr (Num 0)"
  by (simp add: handler_A_def unset_def POST_not_OPTIONS post_def example_env_def
        example_platform_def example_parse_def example_texts_def lit_def json_text_def)

text \<open>
  Claim C10, amended.  With the bot token and the chat id set, a POST request whose body
  is read as a falsy value gets status 400 and the error \<open>No data provided\<close> from both
  relay handlers, which make no outbound call.  The body is read as a falsy value when it
  is a string that \<open>JSON.parse\<close> turns into one (the texts \<open>0\<close>, \<open>false\<close>, \<open>null\<close> and
  the empty string literal), or when it arrives parsed already and is one.
\<close>

theorem C10_falsy_body:
  assumes "req_method req = lit ''POST''"
    and "\<not> unset (TELEGRAM_BOT_TOKEN E)" and "\<not> unset (TELEGRAM_CHAT_ID E)"
    and "(case body req of Str s \<Rightarrow> JSON_parse P s | parsed \<Rightarrow> Inr parsed) = Inr v"
    and "\<not> truthy v"
  shows "handler_A P E remote req =
           (\<lparr>status = 400, json = Obj [(lit ''error'', Str (lit ''No data provided''))]\<rparr>, [])
         \<and> handler_B P E remote st req =
           Some (\<lparr>status = 400, json = Obj [(lit ''error'', Str (lit ''No data provided''))]\<rparr>, st)"
  using assms
  by (simp add: handler_A_def handler_B_def POST_not_OPTIONS no_data_def)

lemma example_parse_falsy:
  "example_parse (lit ''0'') = Inr (Num 0)"
  "example_parse (lit ''false'') = Inr (Bool False)"
  "example_parse (lit ''null'') = Inr Null"
  "example_parse [34, 34] = Inr (Str [])"
  by (simp_all add: example_parse_def example_texts_def lit_def json_text_def)

theorem C10_falsy_body_witness:
  "list_all (\<lambda>b.
      handler_A example_platform example_env fresh (post (lit ''1.2.3.4'') b)
        = (\<lparr>status = 400, json = Obj [(lit ''error'', Str (lit ''No data provided''))]\<rparr>, [])
      \<and> handler_B example_platform example_env fresh (Map.empty, []) (post (lit ''1.2.3.4'') b)
        = Some (\<lparr>status = 400, json = Obj [(lit ''error'', Str (lit ''No data provided''))]\<rparr>,
                (Map.empty, [])))
     [Str (lit ''0''), Str (lit ''false''), Str (lit ''null''), Str [34, 34], Num 0, Null]"
proof -
  have c: "req_method (post f b) = lit ''POST''" "body (post f b) = b" for f b
    by (simp_all add: post_def)
  have e: "\<not> unset (TELEGRAM_BOT_TOKEN example_env)" "\<not> unset (TELEGRAM_CHAT_ID example_env)"
    by (simp_all add: example_env_def unset_def lit_def)
  have p: "JSON_parse example_platform = example_parse"
    by (simp add: example_platform_def)
  note w = C10_falsy_body [where P = example_platform and E = example_env
      and req = "post (lit ''1.2.3.4'') b" and remote = fresh and st = "(Map.empty, [])" for b,
      OF c(1) e]
  show ?thesis
    by (simp add: w [where v = "Num 0"] w [where v = "Bool False"] w [where v = Null]
          w [where v = "Str []"] c p example_parse_falsy)
qed

section \<open>Properties of the topic resolver of Variant B\<close>










lemmas remote_eval = round_at_def find_round_def scan_page_def page_calls_def
  two_pages_def no_topics_def fresh_def ok_response_def failed_response_def
  example_platform_def example_parse_def example_texts_def
  empty_page_def full_page_def match_page_def exists_error_def thread_7_def json_text_def
  Object_prototype_names_def number_to_string_def




lemma findExisting_never_throws:
  "findExistingTopicForIP P remote ip calls \<noteq> Some (Inl e, calls')"
  by (auto simp: findExistingTopicForIP_def split: option.splits sum.splits prod.splits)

lemma find_loop_runs:
  assumes "find_loop P remote name offset calls = Some y"
  shows "find_runs (snd y) = find_runs calls + (if offset = 0 then 1 else 0)"
proof -
  let ?Q = "\<lambda>x y. find_runs (snd y) = find_runs (snd x) + (if snd (fst x) = (0::nat) then 1 else 0)"
  have "?Q ((((P, remote), name), offset), calls) y"
  proof (rule find_loop.raw_induct [where Pa = ?Q, OF _ assms], goal_cases)
    case (1 f P remote name offset calls y)
    show ?case
    proof (cases "find_round P name (remote (calls @ [GetForumTopics offset 100])) = Inr NextPage")
      case True
      with 1(2) have "f P remote name (offset + 100) (calls @ [GetForumTopics offset 100]) = Some y"
        by simp
      from 1(1) [OF this] show ?thesis
        by (simp add: find_runs_def)
    next
      case False
      with 1(2) show ?thesis
        by (auto simp: find_runs_def)
    qed
  qed
  then show ?thesis by simp
qed

lemma findExisting_runs:
  assumes "findExistingTopicForIP P remote ip calls = Some (r, calls')"
  shows "find_runs calls' = find_runs calls + 1"
proof -
  from assms obtain r' where "find_loop P remote (lit ''IP: '' @ ip) 0 calls = Some (r', calls')"
    by (auto simp: findExistingTopicForIP_def split: option.splits sum.splits prod.splits)
  from find_loop_runs [OF this] show ?thesis by simp
qed

lemma createTopic_runs:
  assumes "createTopicForIP P remote ip calls = Some (r, calls')"
  shows "find_runs calls' \<le> find_runs calls + 1"
proof -
  have c: "find_runs (calls @ [CreateForumTopic n]) = find_runs calls" for n
    by (simp add: find_runs_def)
  from assms show ?thesis
    by (auto simp: createTopicForIP_def Let_def c
             split: fetch_result.splits if_splits sum.splits option.splits prod.splits bool.splits
             dest!: findExisting_runs)
qed

lemma getOrCreate_runs:
  assumes "getOrCreateTopicForIP P remote ip (m, calls) = Some (r, (m', calls'))"
  shows "find_runs calls' \<le> find_runs calls + 3"
  using assms
  by (auto simp: getOrCreateTopicForIP_def
           split: option.splits sum.splits prod.splits if_splits
           dest!: findExisting_runs createTopic_runs)

lemma getOrCreate_never_throws:
  "getOrCreateTopicForIP P remote ip st \<noteq> Some (Inl e, st')"
  by (auto simp: getOrCreateTopicForIP_def findExisting_never_throws
           split: option.splits sum.splits prod.splits if_splits)

lemma createTopic_returns:
  assumes "\<forall>calls. findExistingTopicForIP P remote ip calls \<noteq> None"
  shows "createTopicForIP P remote ip calls \<noteq> None"
  by (auto simp: createTopicForIP_def Let_def assms [rule_format]
           split: fetch_result.splits if_splits sum.splits option.splits prod.splits bool.splits)

lemma getOrCreate_returns:
  assumes "\<forall>calls. findExistingTopicForIP P remote ip calls \<noteq> None"
  shows "getOrCreateTopicForIP P remote ip st \<noteq> None"
  by (auto simp: getOrCreateTopicForIP_def assms [rule_format] createTopic_returns [OF assms]
           split: option.splits sum.splits prod.splits if_splits)

lemma getOrCreate_after_failed_create:
  assumes "fst st ip = None"
    and "findExistingTopicForIP P remote ip (snd st) = Some (Inr v1, calls1)" and "\<not> truthy v1"
    and "createTopicForIP P remote ip calls1 = Some (Inl error, calls2)"
    and "getOrCreateTopicForIP P remote ip st = Some (Inr v, (m', calls3))"
  shows "(v = Null \<and> m' = fst st)
         \<or> (truthy v \<and> m' = (fst st)(ip \<mapsto> v)
             \<and> findExistingTopicForIP P remote ip calls2 = Some (Inr v, calls3))"
  using assms
  by (cases st)
     (auto simp: getOrCreateTopicForIP_def
           split: option.splits sum.splits prod.splits if_splits)

















lemma last_snoc_call: "last (calls @ [c]) = c"
  by simp


lemma no_topics_find:
  "findExistingTopicForIP example_platform no_topics ip calls = Some (Inr Null, calls @ [GetForumTopics 0 100])"
  unfolding findExistingTopicForIP_def
  by (subst find_loop.simps)
     (simp add: remote_eval lit_def split del: if_split)



lemma exists_error_parsed:
  "JSON_parse example_platform exists_error =
     Inr (Obj [(lit ''ok'', Bool False), (lit ''error_code'', Num 409),
               (lit ''description'', Str (lit ''Conflict: topic already exists''))])"
  by (simp add: example_platform_def example_parse_def example_texts_def exists_error_def
        empty_page_def full_page_def match_page_def json_text_def lit_def)

lemma conflict_already_exists:
  "already_exists (Str (lit ''Conflict: topic already exists'')) = Inr True"
  by (simp add: already_exists_def lit_def sublist_code)

lemma no_topics_create:
  "createTopicForIP example_platform no_topics ip calls
     = Some (Inl (Error (lit ''Kunne ikke opprette topic: '' @ lit ''Conflict: topic already exists'')),
             (calls @ [CreateForumTopic (lit ''IP: '' @ ip)]) @ [GetForumTopics 0 100])"
  by (simp add: createTopicForIP_def Let_def no_topics_def failed_response_def exists_error_parsed
        conflict_already_exists create_failure_def no_topics_find)







lemma getOrCreate_catch:
  assumes "fst st ip = None"
    and "findExistingTopicForIP P remote ip (snd st) = Some (Inr v1, calls1)" and "\<not> truthy v1"
    and "createTopicForIP P remote ip calls1 = Some (Inl error, calls2)"
  shows "getOrCreateTopicForIP P remote ip st =
           (if message error \<noteq> [] \<and> sublist (lit ''already exists'') (message error) then
              (case findExistingTopicForIP P remote ip calls2 of
                 None \<Rightarrow> None
               | Some (found, calls3) \<Rightarrow>
                   (case found of
                      Inl e \<Rightarrow> Some (Inl e, (fst st, calls3))
                    | Inr again \<Rightarrow>
                        if truthy again then Some (Inr again, ((fst st)(ip \<mapsto> again), calls3))
                        else Some (Inr Null, (fst st, calls3))))
            else Some (Inr Null, (fst st, calls2)))"
  using assms
  by (cases st)
     (simp add: getOrCreateTopicForIP_def split: option.splits sum.splits prod.splits)

lemma createTopic_refind:
  assumes "remote (calls @ [CreateForumTopic (lit ''IP: '' @ ip)]) = Resolved response"
    and "\<not> resp_ok response"
    and "JSON_parse P (resp_body response) = Inr errorData" and "\<not> nullish errorData"
    and "already_exists (get_prop errorData (lit ''description'')) = Inr True"
  shows "createTopicForIP P remote ip calls =
           (case findExistingTopicForIP P remote ip (calls @ [CreateForumTopic (lit ''IP: '' @ ip)]) of
              None \<Rightarrow> None
            | Some (found, calls2) \<Rightarrow>
                (case found of
                   Inl e \<Rightarrow> Some (Inl e, calls2)
                 | Inr existingTopicId \<Rightarrow>
                     if truthy existingTopicId then Some (Inr existingTopicId, calls2)
                     else Some (Inl (create_failure errorData response), calls2)))"
  using assms
  by (simp add: createTopicForIP_def Let_def split: option.splits sum.splits prod.splits)

lemma create_failure_message:
  assumes "get_prop errorData (lit ''error_code'') \<noteq> Num 400"
    and "get_prop errorData (lit ''description'') = Str s"
    and "sublist (lit ''already exists'') s"
  shows "already_exists (get_prop errorData (lit ''description'')) = Inr True
         \<and> create_failure errorData response = Error (lit ''Kunne ikke opprette topic: '' @ s)
         \<and> message (create_failure errorData response) \<noteq> []
         \<and> sublist (lit ''already exists'') (message (create_failure errorData response))"
proof -
  from assms(3) have "s \<noteq> []"
    by (auto simp: lit_def)
  with assms show ?thesis
    by (simp add: already_exists_def create_failure_def sublist_skip)
qed

lemma getOrCreate_two_refinds:
  assumes "fst st ip = None"
    and "findExistingTopicForIP P remote ip (snd st) = Some (Inr v1, calls1)" and "\<not> truthy v1"
    and "remote (calls1 @ [CreateForumTopic (lit ''IP: '' @ ip)]) = Resolved response"
    and "\<not> resp_ok response"
    and "JSON_parse P (resp_body response) = Inr errorData" and "\<not> nullish errorData"
    and "get_prop errorData (lit ''error_code'') \<noteq> Num 400"
    and "get_prop errorData (lit ''description'') = Str s"
    and "sublist (lit ''already exists'') s"
    and "findExistingTopicForIP P remote ip (calls1 @ [CreateForumTopic (lit ''IP: '' @ ip)])
           = Some (Inr v2, calls2)" and "\<not> truthy v2"
    and "findExistingTopicForIP P remote ip calls2 = Some (Inr v3, calls3)"
  shows "createTopicForIP P remote ip calls1
           = Some (Inl (Error (lit ''Kunne ikke opprette topic: '' @ s)), calls2)
         \<and> getOrCreateTopicForIP P remote ip st =
             (if truthy v3 then Some (Inr v3, ((fst st)(ip \<mapsto> v3), calls3))
              else Some (Inr Null, (fst st, calls3)))"
proof -
  note failure = create_failure_message [OF assms(8,9,10), of response]
  from createTopic_refind [of remote calls1 ip response P errorData,
      OF assms(4,5,6,7) failure [THEN conjunct1]] assms(11,12) failure
  have create: "createTopicForIP P remote ip calls1
           = Some (Inl (Error (lit ''Kunne ikke opprette topic: '' @ s)), calls2)"
    by simp
  have contains: "sublist (lit ''already exists'') (lit ''Kunne ikke opprette topic: '' @ s)"
    using assms(10) by (rule sublist_skip)
  from getOrCreate_catch [OF assms(1,2,3) create] contains assms(13) create show ?thesis
    by simp
qed

text \<open>
  Claim C4, amended.  \<open>getOrCreateTopicForIP\<close> never throws, and it returns whenever the
  searches end.  After a failed creation it returns \<open>null\<close> and caches nothing, unless the
  search repeated in its \<open>catch\<close> finds the topic, which it then caches and returns.  One
  resolution starts at most three searches.  The search is repeated in two places.  When
  the description of a failed creation says that the topic already exists,
  \<open>createTopicForIP\<close> searches again right after the creation call, and returns the topic
  found or else throws.  When the message of the error thrown by \<open>createTopicForIP\<close>
  contains \<open>already exists\<close>, the \<open>catch\<close> of \<open>getOrCreateTopicForIP\<close> searches once more
  from the calls made so far, and returns the topic found, which it caches, or else
  \<open>null\<close>; when the message does not contain it, it returns \<open>null\<close> with no further
  search.  Together: when the description is a string that contains \<open>already exists\<close>,
  the error code is not 400 and the first two searches find nothing, the error thrown is
  \<open>Kunne ikke opprette topic: \<close> followed by the description, and the result is that of
  the third search.
\<close>

theorem C4_create_failure:
  "getOrCreateTopicForIP P remote ip st \<noteq> Some (Inl e, st')
   \<and> ((\<forall>calls. findExistingTopicForIP P remote ip calls \<noteq> None)
        \<longrightarrow> getOrCreateTopicForIP P remote ip st \<noteq> None)
   \<and> (fst st ip = None
        \<and> findExistingTopicForIP P remote ip (snd st) = Some (Inr v1, calls1) \<and> \<not> truthy v1
        \<and> createTopicForIP P remote ip calls1 = Some (Inl error, calls2)
        \<and> getOrCreateTopicForIP P remote ip st = Some (Inr v, (m', calls3))
      \<longrightarrow> (v = Null \<and> m' = fst st)
          \<or> (truthy v \<and> m' = (fst st)(ip \<mapsto> v)
              \<and> findExistingTopicForIP P remote ip calls2 = Some (Inr v, calls3)))
   \<and> (getOrCreateTopicForIP P remote ip (m, calls) = Some (r, (m'', calls''))
      \<longrightarrow> find_runs calls'' \<le> find_runs calls + 3)
   \<and> (remote (calls @ [CreateForumTopic (lit ''IP: '' @ ip)]) = Resolved response
        \<and> \<not> resp_ok response
        \<and> JSON_parse P (resp_body response) = Inr errorData \<and> \<not> nullish errorData
        \<and> already_exists (get_prop errorData (lit ''description'')) = Inr True
        \<and> findExistingTopicForIP P remote ip (calls @ [CreateForumTopic (lit ''IP: '' @ ip)])
            = Some (Inr found, calls2)
      \<longrightarrow> createTopicForIP P remote ip calls
            = Some (if truthy found then Inr found else Inl (create_failure errorData response),
                    calls2))
   \<and> (fst st ip = None
        \<and> findExistingTopicForIP P remote ip (snd st) = Some (Inr v1, calls1) \<and> \<not> truthy v1
        \<and> createTopicForIP P remote ip calls1 = Some (Inl error, calls2)
      \<longrightarrow> (message error \<noteq> [] \<and> sublist (lit ''already exists'') (message error)
            \<and> findExistingTopicForIP P remote ip calls2 = Some (Inr again, calls3)
           \<longrightarrow> getOrCreateTopicForIP P remote ip st
                 = (if truthy again then Some (Inr again, ((fst st)(ip \<mapsto> again), calls3))
                    else Some (Inr Null, (fst st, calls3))))
          \<and> (\<not> (message error \<noteq> [] \<and> sublist (lit ''already exists'') (message error))
           \<longrightarrow> getOrCreateTopicForIP P remote ip st = Some (Inr Null, (fst st, calls2))))
   \<and> (fst st ip = None
        \<and> findExistingTopicForIP P remote ip (snd st) = Some (Inr v1, calls1) \<and> \<not> truthy v1
        \<and> remote (calls1 @ [CreateForumTopic (lit ''IP: '' @ ip)]) = Resolved response
        \<and> \<not> resp_ok response
        \<and> JSON_parse P (resp_body response) = Inr errorData \<and> \<not> nullish errorData
        \<and> get_prop errorData (lit ''error_code'') \<noteq> Num 400
        \<and> get_prop errorData (lit ''description'') = Str s
        \<and> sublist (lit ''already exists'') s
        \<and> findExistingTopicForIP P remote ip (calls1 @ [CreateForumTopic (lit ''IP: '' @ ip)])
            = Some (Inr v2, calls2) \<and> \<not> truthy v2
        \<and> findExistingTopicForIP P remote ip calls2 = Some (Inr v3, calls3)
      \<longrightarrow> createTopicForIP P remote ip calls1
            = Some (Inl (Error (lit ''Kunne ikke opprette topic: '' @ s)), calls2)
          \<and> getOrCreateTopicForIP P remote ip st
            = (if truthy v3 then Some (Inr v3, ((fst st)(ip \<mapsto> v3), calls3))
               else Some (Inr Null, (fst st, calls3))))"
proof (intro conjI impI; (elim conjE)?)
  show "getOrCreateTopicForIP P remote ip st \<noteq> Some (Inl e, st')"
    by (rule getOrCreate_never_throws)
  show "\<forall>calls. findExistingTopicForIP P remote ip calls \<noteq> None
        \<Longrightarrow> getOrCreateTopicForIP P remote ip st \<noteq> None"
    by (rule getOrCreate_returns)
  show "fst st ip = None \<Longrightarrow> findExistingTopicForIP P remote ip (snd st) = Some (Inr v1, calls1)
        \<Longrightarrow> \<not> truthy v1 \<Longrightarrow> createTopicForIP P remote ip calls1 = Some (Inl error, calls2)
        \<Longrightarrow> getOrCreateTopicForIP P remote ip st = Some (Inr v, (m', calls3))
        \<Longrightarrow> (v = Null \<and> m' = fst st)
          \<or> (truthy v \<and> m' = (fst st)(ip \<mapsto> v)
              \<and> findExistingTopicForIP P remote ip calls2 = Some (Inr v, calls3))"
    by (rule getOrCreate_after_failed_create)
  show "getOrCreateTopicForIP P remote ip (m, calls) = Some (r, (m'', calls''))
        \<Longrightarrow> find_runs calls'' \<le> find_runs calls + 3"
    by (rule getOrCreate_runs)
  show "remote (calls @ [CreateForumTopic (lit ''IP: '' @ ip)]) = Resolved response
        \<Longrightarrow> \<not> resp_ok response
        \<Longrightarrow> JSON_parse P (resp_body response) = Inr errorData \<Longrightarrow> \<not> nullish errorData
        \<Longrightarrow> already_exists (get_prop errorData (lit ''description'')) = Inr True
        \<Longrightarrow> findExistingTopicForIP P remote ip (calls @ [CreateForumTopic (lit ''IP: '' @ ip)])
            = Some (Inr found, calls2)
        \<Longrightarrow> createTopicForIP P remote ip calls
            = Some (if truthy found then Inr found else Inl (create_failure errorData response),
                    calls2)"
    using createTopic_refind [of remote calls ip response P errorData] by simp
  show "fst st ip = None \<Longrightarrow> findExistingTopicForIP P remote ip (snd st) = Some (Inr v1, calls1)
        \<Longrightarrow> \<not> truthy v1 \<Longrightarrow> createTopicForIP P remote ip calls1 = Some (Inl error, calls2)
        \<Longrightarrow> message error \<noteq> [] \<Longrightarrow> sublist (lit ''already exists'') (message error)
        \<Longrightarrow> findExistingTopicForIP P remote ip calls2 = Some (Inr again, calls3)
        \<Longrightarrow> getOrCreateTopicForIP P remote ip st
                 = (if truthy again then Some (Inr again, ((fst st)(ip \<mapsto> again), calls3))
                    else Some (Inr Null, (fst st, calls3)))"
    using getOrCreate_catch [of st ip P remote v1 calls1 error calls2] by simp
  show "fst st ip = None \<Longrightarrow> findExistingTopicForIP P remote ip (snd st) = Some (Inr v1, calls1)
        \<Longrightarrow> \<not> truthy v1 \<Longrightarrow> createTopicForIP P remote ip calls1 = Some (Inl error, calls2)
        \<Longrightarrow> \<not> (message error \<noteq> [] \<and> sublist (lit ''already exists'') (message error))
        \<Longrightarrow> getOrCreateTopicForIP P remote ip st = Some (Inr Null, (fst st, calls2))"
    using getOrCreate_catch [of st ip P remote v1 calls1 error calls2] by auto
  assume two: "fst st ip = None"
    "findExistingTopicForIP P remote ip (snd st) = Some (Inr v1, calls1)" "\<not> truthy v1"
    "remote (calls1 @ [CreateForumTopic (lit ''IP: '' @ ip)]) = Resolved response"
    "\<not> resp_ok response"
    "JSON_parse P (resp_body response) = Inr errorData" "\<not> nullish errorData"
    "get_prop errorData (lit ''error_code'') \<noteq> Num 400"
    "get_prop errorData (lit ''description'') = Str s"
    "sublist (lit ''already exists'') s"
    "findExistingTopicForIP P remote ip (calls1 @ [CreateForumTopic (lit ''IP: '' @ ip)])
       = Some (Inr v2, calls2)" "\<not> truthy v2"
    "findExistingTopicForIP P remote ip calls2 = Some (Inr v3, calls3)"
  note both = getOrCreate_two_refinds [OF two]
  from both show "createTopicForIP P remote ip calls1
            = Some (Inl (Error (lit ''Kunne ikke opprette topic: '' @ s)), calls2)"
    by (rule conjunct1)
  from both show "getOrCreateTopicForIP P remote ip st
            = (if truthy v3 then Some (Inr v3, ((fst st)(ip \<mapsto> v3), calls3))
               else Some (Inr Null, (fst st, calls3)))"
    by (rule conjunct2)
qed

text \<open>
  Claim C4, as stated, fails in the number of searches: when the creation fails with a
  description that says the topic already exists and an error code other than 400,
  \<open>createTopicForIP\<close> searches again and, finding nothing, throws an error whose message
  still contains \<open>already exists\<close>; the \<open>catch\<close> of \<open>getOrCreateTopicForIP\<close> then searches
  once more.  The find is re-run twice, not once.
\<close>

theorem C4_create_failure_counterexample:
  "createTopicForIP example_platform no_topics (lit ''1.2.3.4'') [GetForumTopics 0 100]
     = Some (Inl (Error (lit ''Kunne ikke opprette topic: '' @ lit ''Conflict: topic already exists'')),
             [GetForumTopics 0 100, CreateForumTopic (lit ''IP: '' @ lit ''1.2.3.4''),
              GetForumTopics 0 100])
   \<and> getOrCreateTopicForIP example_platform no_topics (lit ''1.2.3.4'') (Map.empty, [])
     = Some (Inr Null,
             (Map.empty,
              [GetForumTopics 0 100, CreateForumTopic (lit ''IP: '' @ lit ''1.2.3.4''),
               GetForumTopics 0 100, GetForumTopics 0 100]))"
  by (simp add: getOrCreateTopicForIP_def no_topics_find no_topics_create lit_def sublist_code)

theorem C4_create_failure_witness:
  "createTopicForIP example_platform no_topics (lit ''5.6.7.8'') [GetForumTopics 0 100]
     = Some (Inl (Error (lit ''Kunne ikke opprette topic: '' @ lit ''Conflict: topic already exists'')),
             [GetForumTopics 0 100, CreateForumTopic (lit ''IP: '' @ lit ''5.6.7.8''),
              GetForumTopics 0 100])
   \<and> getOrCreateTopicForIP example_platform no_topics (lit ''5.6.7.8'')
         ([lit ''1.2.3.4'' \<mapsto> Num 7], [])
     = Some (Inr Null,
             ([lit ''1.2.3.4'' \<mapsto> Num 7],
              [GetForumTopics 0 100, CreateForumTopic (lit ''IP: '' @ lit ''5.6.7.8''),
               GetForumTopics 0 100, GetForumTopics 0 100]))
   \<and> find_runs [GetForumTopics 0 100, CreateForumTopic (lit ''IP: '' @ lit ''5.6.7.8''),
                 GetForumTopics 0 100, GetForumTopics 0 100] \<le> 3"
proof -
  let ?ip = "lit ''5.6.7.8''"
  let ?st = "([lit ''1.2.3.4'' \<mapsto> Num 7], []) :: topic_state"
  let ?create = "CreateForumTopic (lit ''IP: '' @ ?ip)"
  let ?response = "\<lparr>resp_ok = False, statusText = lit ''Conflict'',
                     content_type = Some (lit ''application/json''), resp_body = exists_error\<rparr>"
  let ?errorData = "Obj [(lit ''ok'', Bool False), (lit ''error_code'', Num 409),
                         (lit ''description'', Str (lit ''Conflict: topic already exists''))]"
  note C4 = C4_create_failure [where P = example_platform and remote = no_topics and ip = ?ip and st = ?st]
  have uncached: "fst ?st ?ip = None"
    by simp
  have find1: "findExistingTopicForIP example_platform no_topics ?ip (snd ?st)
                 = Some (Inr Null, [GetForumTopics 0 100])"
    using no_topics_find [of ?ip "[]"] by simp
  have falsy: "\<not> truthy Null"
    by simp
  have answer: "no_topics ([GetForumTopics 0 100] @ [?create]) = Resolved ?response"
    by (simp add: no_topics_def failed_response_def)
  have failed: "\<not> resp_ok ?response"
    by simp
  have parsed: "JSON_parse example_platform (resp_body ?response) = Inr ?errorData"
    by (simp add: exists_error_parsed)
  have object: "\<not> nullish ?errorData"
    by simp
  have code: "get_prop ?errorData (lit ''error_code'') \<noteq> Num 400"
    by simp
  have description: "get_prop ?errorData (lit ''description'')
                       = Str (lit ''Conflict: topic already exists'')"
    by simp
  have says: "sublist (lit ''already exists'') (lit ''Conflict: topic already exists'')"
    by (simp add: lit_def sublist_code)
  have find2: "findExistingTopicForIP example_platform no_topics ?ip ([GetForumTopics 0 100] @ [?create])
                 = Some (Inr Null, [GetForumTopics 0 100, ?create, GetForumTopics 0 100])"
    using no_topics_find [of ?ip "[GetForumTopics 0 100, ?create]"] by simp
  have find3: "findExistingTopicForIP example_platform no_topics ?ip
                   [GetForumTopics 0 100, ?create, GetForumTopics 0 100]
                 = Some (Inr Null, [GetForumTopics 0 100, ?create, GetForumTopics 0 100,
                                    GetForumTopics 0 100])"
    using no_topics_find [of ?ip "[GetForumTopics 0 100, ?create, GetForumTopics 0 100]"] by simp
  have both: "createTopicForIP example_platform no_topics ?ip [GetForumTopics 0 100]
            = Some (Inl (Error (lit ''Kunne ikke opprette topic: '' @ lit ''Conflict: topic already exists'')),
                    [GetForumTopics 0 100, ?create, GetForumTopics 0 100])
          \<and> getOrCreateTopicForIP example_platform no_topics ?ip ?st
            = (if truthy Null
               then Some (Inr Null, ((fst ?st)(?ip \<mapsto> Null),
                            [GetForumTopics 0 100, ?create, GetForumTopics 0 100, GetForumTopics 0 100]))
               else Some (Inr Null, (fst ?st,
                            [GetForumTopics 0 100, ?create, GetForumTopics 0 100, GetForumTopics 0 100])))"
  proof (rule C4 [THEN conjunct2, THEN conjunct2, THEN conjunct2, THEN conjunct2, THEN conjunct2,
        THEN conjunct2, rule_format], intro conjI)
    show "fst ?st ?ip = None" by (rule uncached)
    show "findExistingTopicForIP example_platform no_topics ?ip (snd ?st)
            = Some (Inr Null, [GetForumTopics 0 100])" by (rule find1)
    show "\<not> truthy Null" by simp
    show "no_topics ([GetForumTopics 0 100] @ [?create]) = Resolved ?response" by (rule answer)
    show "\<not> resp_ok ?response" by simp
    show "JSON_parse example_platform (resp_body ?response) = Inr ?errorData" by (rule parsed)
    show "\<not> nullish ?errorData" by simp
    show "get_prop ?errorData (lit ''error_code'') \<noteq> Num 400" by (rule code)
    show "get_prop ?errorData (lit ''description'') = Str (lit ''Conflict: topic already exists'')"
      by (rule description)
    show "sublist (lit ''already exists'') (lit ''Conflict: topic already exists'')" by (rule says)
    show "findExistingTopicForIP example_platform no_topics ?ip ([GetForumTopics 0 100] @ [?create])
            = Some (Inr Null, [GetForumTopics 0 100, ?create, GetForumTopics 0 100])" by (rule find2)
    show "\<not> truthy Null" by simp
    show "findExistingTopicForIP example_platform no_topics ?ip
              [GetForumTopics 0 100, ?create, GetForumTopics 0 100]
            = Some (Inr Null, [GetForumTopics 0 100, ?create, GetForumTopics 0 100,
                               GetForumTopics 0 100])" by (rule find3)
  qed
  then have result: "getOrCreateTopicForIP example_platform no_topics ?ip ?st
            = Some (Inr Null, (fst ?st,
                      [GetForumTopics 0 100, ?create, GetForumTopics 0 100, GetForumTopics 0 100]))"
    by simp
  from C4 [THEN conjunct2, THEN conjunct2, THEN conjunct2, THEN conjunct1, rule_format,
      of "fst ?st" "[]" "Inr Null" "fst ?st"
         "[GetForumTopics 0 100, ?create, GetForumTopics 0 100, GetForumTopics 0 100]"] result
  have "find_runs [GetForumTopics 0 100, ?create, GetForumTopics 0 100, GetForumTopics 0 100] \<le> 3"
    by (simp add: find_runs_def)
  with both result show ?thesis
    by simp
qed

end
